theory Spec2Isabelle
  imports Complex_Main "HOL-Library.Word"
begin

section \<open>The tick scheduler of Context.cpp\<close>

text \<open>
  The model follows \<^verbatim>\<open>src/openrct2/Context.cpp\<close>. The private fields of the class
  \<^verbatim>\<open>Context\<close> that the game loop reads and writes, and the globals it updates, are
  the fields of the record \<open>Context\<close>. Calls into collaborators whose code lives in other
  files (window system, tweener, painter, simulation) are appended, in program order, to
  the field \<open>calls\<close>.

  Numbers: the accumulators, the time scale and the timer's delta are C++ \<^verbatim>\<open>float\<close>.
  The functions of this section compute with exact reals; they carry the statements about
  the order of calls, the clamp, the real-time counter and the flags. The functions with
  the rounding of binary32 follow in a section of their own; they carry the statements
  about the number of ticks and the length of the sleep.

  The constants \<^verbatim>\<open>kGameUpdateTimeMS\<close> (the duration of one logical tick, in seconds) and
  \<^verbatim>\<open>kGameUpdateMaxThreshold\<close> are declared in a header that is not part of these
  files; they are parameters of the model, as are the two compile-time switches
  \<^verbatim>\<open>__ENABLE_DISCORD__\<close> and \<^verbatim>\<open>ENABLE_SCRIPTING\<close>. The loop is the one compiled when
  \<^verbatim>\<open>__EMSCRIPTEN__\<close> is not defined. The time scale is a field that only
  \<^verbatim>\<open>SetTimeScale\<close> writes; no function of the loop changes it.
\<close>

record config =
  kGameUpdateTimeMS :: real
  kGameUpdateMaxThreshold :: real
  enableDiscord :: bool
  enableScripting :: bool

datatype extcall =
    UiProcessMessages
  | PlatformSleep "32 word"
  | TweenerRestore
  | TweenerReset
  | TweenerPreTick
  | TweenerPostTick
  | TweenerTween real
  | ContextHandleInput
  | WindowUpdateAll
  | BeginDraw
  | PainterPaint
  | EndDraw
  | DateUpdateRealTimeOfDay
  | IntroUpdate
  | TitleScreenTick
  | GameStateTick
  | DiscordServiceTick
  | ChatUpdate
  | ScriptEngineTick
  | ProcessEvalQueue
  | UiContextTick
  | CrashInit
  | ConfigSaveDefault
  | OpenLanguageConfigured
  | OpenLanguageEnglishUK
  | ShowMessageBox
  | ConsoleErrorWriteLine
  | GetOrPromptRCT2Path
  | SetBasePath
  | UiCreateWindow
  | EnsureUserContentDirectoriesExist
  | ObjectRepositoryLoadOrConstruct
  | AssetPackScan
  | AssetPackLoadEnabled
  | AssetPackReload
  | TrackDesignRepositoryScan
  | ScenarioRepositoryScan
  | TitleSequenceManagerScan
  | AudioInit
  | AudioPopulateDevices
  | AudioInitRideSoundsAndInfo
  | ChatInit
  | CopyOriginalUserFilesOver
  | LoadBaseGraphics
  | LightFXInit
  | InputResetPlaceObjModifier
  | ViewportInitAll
  | GameStateInitAll
  | ScriptEngineInitialise
  | UiContextInitialise

record Context =
  initialised :: bool
  discordService :: bool
  ticksAccumulator :: real
  realtimeAccumulator :: real
  timeScale :: real
  variableFrame :: bool
  finished :: bool
  gCurrentRealTimeTicks :: "32 word"
  gCurrentDeltaTime :: "16 word"
  gPaletteEffectFrame :: "32 word"
  calls :: "extcall list"

text \<open>
  What the surroundings report during one pass of the loop body (one poll): the timer's
  elapsed time, the globals and window state read by \<^verbatim>\<open>ShouldDraw\<close> and
  \<^verbatim>\<open>ShouldRunVariableFrame\<close>, the globals read by \<^verbatim>\<open>Tick\<close>, and whether the window
  system's message pump asks the context to finish (\<^verbatim>\<open>Finish()\<close> is public and is
  reached from event handlers through \<^verbatim>\<open>OpenRCT2Finish\<close>).
\<close>

record poll =
  deltaTime :: real
  gOpenRCT2Headless :: bool
  isMinimised :: bool
  uncapFPS :: bool
  gGameSpeed :: int
  gamePaused :: bool
  introActive :: bool
  titleDemo :: bool
  finishRequested :: bool

definition invoke :: "extcall \<Rightarrow> Context \<Rightarrow> Context" where
  "invoke e st = st\<lparr>calls := calls st @ [e]\<rparr>"

text \<open>\<^verbatim>\<open>std::min(a, b)\<close> returns \<open>b\<close> when \<open>b < a\<close> and \<open>a\<close> otherwise.\<close>

definition std_min :: "real \<Rightarrow> real \<Rightarrow> real" where
  "std_min a b = (if b < a then b else a)"

text \<open>
  \<^verbatim>\<open>static_cast\<close> from \<^verbatim>\<open>float\<close> to an unsigned integer type truncates towards zero.
  A value outside the target's range is undefined behaviour in C++; the model wraps.
\<close>

definition float_to_word :: "real \<Rightarrow> 'a::len word" where
  "float_to_word x = word_of_int (if 0 \<le> x then \<lfloor>x\<rfloor> else \<lceil>x\<rceil>)"

definition Finish :: "Context \<Rightarrow> Context" where
  "Finish st = st\<lparr>finished := True\<rparr>"

definition ShouldDraw :: "poll \<Rightarrow> bool" where
  "ShouldDraw p =
     (if gOpenRCT2Headless p then False
      else if isMinimised p then False
      else True)"

definition ShouldRunVariableFrame :: "poll \<Rightarrow> bool" where
  "ShouldRunVariableFrame p =
     (if \<not> ShouldDraw p then False
      else if \<not> uncapFPS p then False
      else if gGameSpeed p > 4 then False
      else True)"

definition Draw :: "Context \<Rightarrow> Context" where
  "Draw st = invoke EndDraw (invoke PainterPaint (invoke BeginDraw st))"

definition Tick :: "config \<Rightarrow> poll \<Rightarrow> Context \<Rightarrow> Context" where
  "Tick c p st =
     (let st1 = st\<lparr>gCurrentDeltaTime := float_to_word (kGameUpdateTimeMS c * 1000)\<rparr>;
          st2 = (if \<not> gamePaused p
                 then st1\<lparr>gPaletteEffectFrame :=
                        gPaletteEffectFrame st1 + ucast (gCurrentDeltaTime st1)\<rparr>
                 else st1);
          st3 = invoke DateUpdateRealTimeOfDay st2;
          st4 = (if introActive p then invoke IntroUpdate st3
                 else if titleDemo p \<and> \<not> gOpenRCT2Headless p then invoke TitleScreenTick st3
                 else invoke GameStateTick st3);
          st5 = (if enableDiscord c \<and> discordService st4
                 then invoke DiscordServiceTick st4 else st4);
          st6 = invoke ChatUpdate st5;
          st7 = (if enableScripting c then invoke ScriptEngineTick st6 else st6);
          st8 = invoke ProcessEvalQueue st7
      in invoke UiContextTick st8)"

text \<open>
  The three \<^verbatim>\<open>while\<close> loops. Each runs for ever when the tick duration is not
  positive, so each is a partial function: \<open>None\<close> is "does not return".
\<close>

partial_function (option) DrainRealtime :: "config \<Rightarrow> Context \<Rightarrow> Context option" where
  "DrainRealtime c st =
     (if realtimeAccumulator st \<ge> kGameUpdateTimeMS c
      then DrainRealtime c
             (st\<lparr>gCurrentRealTimeTicks := gCurrentRealTimeTicks st + 1,
                 realtimeAccumulator := realtimeAccumulator st - kGameUpdateTimeMS c\<rparr>)
      else Some st)"

definition UpdateTimeAccumulators :: "config \<Rightarrow> real \<Rightarrow> Context \<Rightarrow> Context option" where
  "UpdateTimeAccumulators c dt st =
     (let scaledDeltaTime = dt * timeScale st;
          st1 = st\<lparr>ticksAccumulator :=
                   std_min (ticksAccumulator st + scaledDeltaTime) (kGameUpdateMaxThreshold c)\<rparr>;
          st2 = st1\<lparr>realtimeAccumulator :=
                   std_min (realtimeAccumulator st1 + dt) (kGameUpdateMaxThreshold c)\<rparr>
      in DrainRealtime c st2)"

partial_function (option) FixedTickLoop :: "config \<Rightarrow> poll \<Rightarrow> Context \<Rightarrow> Context option" where
  "FixedTickLoop c p st =
     (if ticksAccumulator st \<ge> kGameUpdateTimeMS c
      then FixedTickLoop c p
             ((Tick c p st)\<lparr>ticksAccumulator :=
                 ticksAccumulator (Tick c p st) - kGameUpdateTimeMS c\<rparr>)
      else Some st)"

definition ProcessMessages :: "poll \<Rightarrow> Context \<Rightarrow> Context" where
  "ProcessMessages p st =
     (let st1 = invoke UiProcessMessages st
      in if finishRequested p then Finish st1 else st1)"

definition RunFixedFrame :: "config \<Rightarrow> poll \<Rightarrow> Context \<Rightarrow> Context option" where
  "RunFixedFrame c p st =
     (let st1 = ProcessMessages p st
      in if ticksAccumulator st1 < kGameUpdateTimeMS c
         then (let sleepTimeSec = kGameUpdateTimeMS c - ticksAccumulator st1
               in Some (invoke (PlatformSleep (float_to_word (sleepTimeSec * 1000))) st1))
         else (case FixedTickLoop c p st1 of
                 None \<Rightarrow> None
               | Some st2 \<Rightarrow>
                   (let st3 = invoke WindowUpdateAll (invoke ContextHandleInput st2)
                    in Some (if ShouldDraw p then Draw st3 else st3))))"

definition VariableTickBody :: "config \<Rightarrow> poll \<Rightarrow> bool \<Rightarrow> Context \<Rightarrow> Context" where
  "VariableTickBody c p shouldDraw st =
     (let st1 = (if shouldDraw then invoke TweenerPreTick st else st);
          st2 = Tick c p st1;
          st3 = st2\<lparr>ticksAccumulator := ticksAccumulator st2 - kGameUpdateTimeMS c\<rparr>
      in if shouldDraw then invoke TweenerPostTick st3 else st3)"

partial_function (option) VariableTickLoop ::
    "config \<Rightarrow> poll \<Rightarrow> bool \<Rightarrow> Context \<Rightarrow> Context option" where
  "VariableTickLoop c p shouldDraw st =
     (if ticksAccumulator st \<ge> kGameUpdateTimeMS c
      then VariableTickLoop c p shouldDraw (VariableTickBody c p shouldDraw st)
      else Some st)"

definition RunVariableFrame :: "config \<Rightarrow> poll \<Rightarrow> Context \<Rightarrow> Context option" where
  "RunVariableFrame c p st =
     (let shouldDraw = ShouldDraw p;
          st1 = ProcessMessages p st
      in case VariableTickLoop c p shouldDraw st1 of
           None \<Rightarrow> None
         | Some st2 \<Rightarrow>
             (let st3 = invoke WindowUpdateAll (invoke ContextHandleInput st2)
              in Some (if shouldDraw
                       then (let alpha = std_min (ticksAccumulator st3 / kGameUpdateTimeMS c) 1
                             in Draw (invoke (TweenerTween alpha) st3))
                       else st3)))"

text \<open>
  The first block of \<^verbatim>\<open>RunFrame\<close>: when the frame mode differs from the one recorded in
  \<^verbatim>\<open>_variableFrame\<close>, the new mode is stored and the tweener is restored and reset.
\<close>

definition SyncFrameMode :: "bool \<Rightarrow> Context \<Rightarrow> Context" where
  "SyncFrameMode useVariableFrame st =
     (if variableFrame st \<noteq> useVariableFrame
      then invoke TweenerReset
             (invoke TweenerRestore (st\<lparr>variableFrame := useVariableFrame\<rparr>))
      else st)"

definition RunFrame :: "config \<Rightarrow> poll \<Rightarrow> Context \<Rightarrow> Context option" where
  "RunFrame c p st =
     (let useVariableFrame = ShouldRunVariableFrame p;
          st1 = SyncFrameMode useVariableFrame st
      in case UpdateTimeAccumulators c (deltaTime p) st1 of
           None \<Rightarrow> None
         | Some st2 \<Rightarrow>
             if useVariableFrame then RunVariableFrame c p st2 else RunFixedFrame c p st2)"

text \<open>
  \<^verbatim>\<open>RunGameLoop\<close>: the flag is reset and the frame mode is initialised
  (\<open>EnterGameLoop\<close>, with the poll that \<^verbatim>\<open>ShouldRunVariableFrame\<close> sees at that moment), and
  the body runs until the flag is set. The polls are the inputs of the successive passes;
  when they are used up while the loop is still running the result is \<open>None\<close>.
\<close>

fun GameLoop :: "config \<Rightarrow> poll list \<Rightarrow> Context \<Rightarrow> Context option" where
  "GameLoop c [] st = None"
| "GameLoop c (p # ps) st =
     (case RunFrame c p st of
        None \<Rightarrow> None
      | Some st' \<Rightarrow> if \<not> finished st' then GameLoop c ps st' else Some st')"

definition EnterGameLoop :: "poll \<Rightarrow> Context \<Rightarrow> Context" where
  "EnterGameLoop p0 st =
     (let st1 = st\<lparr>finished := False\<rparr>
      in st1\<lparr>variableFrame := ShouldRunVariableFrame p0\<rparr>)"

definition RunGameLoop :: "config \<Rightarrow> poll \<Rightarrow> poll list \<Rightarrow> Context \<Rightarrow> Context option" where
  "RunGameLoop c p0 ps st = GameLoop c ps (EnterGameLoop p0 st)"


text \<open>
  Every \<^verbatim>\<open>Tick()\<close> ends with the one call of \<^verbatim>\<open>_uiContext->Tick()\<close>, and nothing else
  makes that call, so the logical ticks in a trace are counted by it.
\<close>

definition ticksRun :: "extcall list \<Rightarrow> nat" where
  "ticksRun cs = length (filter (\<lambda>e. e = UiContextTick) cs)"


section \<open>Initialisation\<close>

text \<open>
  \<^verbatim>\<open>Context::Initialise\<close> throws \<^verbatim>\<open>std::runtime_error\<close> when the context is already
  initialised and otherwise returns a boolean. What the surroundings answer during the
  sequence is the record \<open>startup\<close>. Members that only hold collaborator objects, and
  configuration globals written on the way, are not part of the state; the one exception
  is \<^verbatim>\<open>_discordService\<close>, whose null test \<^verbatim>\<open>Tick\<close> reads. \<^verbatim>\<open>GetOrPromptRCT2Path\<close>
  returns no path only after it has written an error line to the console.
\<close>

datatype error = RuntimeError string

record startup =
  lastRunVersionCurrent :: bool
  languageOpens :: bool
  fallbackLanguageOpens :: bool
  startHeadless :: bool
  rct2PathFound :: bool
  processIsElevated :: bool
  runningInWine :: bool
  noGraphics :: bool
  baseGraphicsLoad :: bool

definition invokes :: "extcall list \<Rightarrow> Context \<Rightarrow> Context" where
  "invokes es st = st\<lparr>calls := calls st @ es\<rparr>"

text \<open>
  From the warnings about elevation and Wine to the end of the function. A call made
  under a condition is written as the (possibly empty) list of calls it adds.
\<close>

definition InitialiseServices :: "config \<Rightarrow> startup \<Rightarrow> Context \<Rightarrow> bool \<times> Context" where
  "InitialiseServices c s st =
     (let warn = (if startHeadless s then ConsoleErrorWriteLine else ShowMessageBox);
          st1 = invokes (if processIsElevated s then [warn] else []) st;
          st2 = invokes (if runningInWine s then [warn] else []) st1;
          st3 = invokes (if \<not> startHeadless s then [UiCreateWindow] else []) st2;
          st4 = invokes [EnsureUserContentDirectoriesExist, ObjectRepositoryLoadOrConstruct] st3;
          st5 = invokes (if \<not> startHeadless s
                         then [AssetPackScan, AssetPackLoadEnabled, AssetPackReload]
                         else []) st4;
          st6 = invokes [TrackDesignRepositoryScan, ScenarioRepositoryScan,
                         TitleSequenceManagerScan] st5;
          st7 = invokes (if \<not> startHeadless s
                         then [AudioInit, AudioPopulateDevices, AudioInitRideSoundsAndInfo]
                         else []) st6;
          st8 = invokes [ChatInit, CopyOriginalUserFilesOver] st7
      in if \<not> noGraphics s \<and> \<not> baseGraphicsLoad s
         then (False, invoke LoadBaseGraphics st8)
         else
           (let st9 = invokes (if \<not> noGraphics s then [LoadBaseGraphics, LightFXInit] else []) st8;
                st10 = invokes [InputResetPlaceObjModifier, ViewportInitAll, GameStateInitAll] st9;
                st11 = invokes (if enableScripting c then [ScriptEngineInitialise] else []) st10
            in (True, invoke UiContextInitialise st11)))"

definition Initialise :: "config \<Rightarrow> startup \<Rightarrow> Context \<Rightarrow> error + (bool \<times> Context)" where
  "Initialise c s st =
     (if initialised st then Inl (RuntimeError ''Context already initialised.'')
      else
        (let st1 = st\<lparr>initialised := True\<rparr>;
             st2 = invoke CrashInit st1;
             st3 = invokes (if lastRunVersionCurrent s then [] else [ConfigSaveDefault]) st2;
             st4 = invoke OpenLanguageConfigured st3
         in if \<not> languageOpens s \<and> \<not> fallbackLanguageOpens s
            then Inr (False, invokes [OpenLanguageEnglishUK, ShowMessageBox] st4)
            else
              (let st5 = invokes (if languageOpens s then [] else [OpenLanguageEnglishUK]) st4
               in if \<not> startHeadless s \<and> \<not> rct2PathFound s
                  then Inr (False, invokes [GetOrPromptRCT2Path, ConsoleErrorWriteLine] st5)
                  else
                    (let st6 = invokes (if \<not> startHeadless s
                                        then [GetOrPromptRCT2Path, SetBasePath] else []) st5;
                         st7 = st6\<lparr>discordService :=
                                 (if enableDiscord c \<and> \<not> startHeadless s then True
                                  else discordService st6)\<rparr>
                     in Inr (InitialiseServices c s st7)))))"

section \<open>The entity tweener\<close>

text \<open>
  \<^verbatim>\<open>Context.cpp\<close> calls the tweener; the tweener's own code (\<^verbatim>\<open>entity/EntityTweener\<close>)
  is not among these files. Its state is a render-only position for each entity and the
  recorded pair of pre-tick and post-tick positions for each entity.
\<close>

type_synonym coords = "int \<times> int \<times> int"

record tweener =
  renderPos :: "nat \<rightharpoonup> coords"
  recorded :: "nat \<rightharpoonup> (coords \<times> coords)"

text \<open>
  Modelled from the spec: the body of \<^verbatim>\<open>EntityTweener::Restore\<close> is
  missing. "Restore() writes the "to" (authoritative) position back into the render-only
  field, discarding interpolation".
\<close>

definition Restore :: "tweener \<Rightarrow> tweener" where
  "Restore tw =
     tw\<lparr>renderPos := (\<lambda>e. case recorded tw e of
                               Some (fromPos, toPos) \<Rightarrow> Some toPos
                             | None \<Rightarrow> renderPos tw e)\<rparr>"

text \<open>
  Modelled from the spec: the body of \<^verbatim>\<open>EntityTweener::Reset\<close> is
  missing. "Reset() clears all recorded position pairs".
\<close>

definition Reset :: "tweener \<Rightarrow> tweener" where
  "Reset tw = tw\<lparr>recorded := Map.empty\<rparr>"

definition exampleTweener :: tweener where
  "exampleTweener = \<lparr>renderPos = [7 \<mapsto> (3, 4, 0)],
                      recorded = [7 \<mapsto> ((0, 0, 0), (32, 64, 0))]\<rparr>"

section \<open>The action pipeline\<close>

text \<open>
  Of the action pipeline only the declaration of \<^verbatim>\<open>StaffSetOrdersAction\<close> is among these
  files (\<^verbatim>\<open>actions/StaffSetOrdersAction.h\<close>): two parameters, \<^verbatim>\<open>_spriteIndex\<close> and
  \<^verbatim>\<open>_ordersId\<close> (a \<^verbatim>\<open>uint8_t\<close>), and the operations \<^verbatim>\<open>Query\<close> and \<^verbatim>\<open>Execute\<close>.
\<close>

datatype failure = TargetNotFound | SimulationPaused

datatype result = Success | Failure failure

record game_state =
  staffOrders :: "nat \<rightharpoonup> 8 word"
  simPaused :: bool

record action =
  allowedWhilePaused :: bool
  Query :: "game_state \<Rightarrow> result"
  Execute :: "game_state \<Rightarrow> result \<times> game_state"

datatype pipeline_call = QueryCalled | ExecuteCalled

text \<open>
  Modelled from the spec: the body of
  \<^verbatim>\<open>StaffSetOrdersAction::Query\<close> is missing. Query "checks
  referential validity (does the target entity/object exist and is it of the expected
  kind)"; "an order-setting action targeting a non-existent staff identifier fails Query
  with a "target not found" classification".
\<close>

definition StaffSetOrdersQuery :: "nat \<Rightarrow> 8 word \<Rightarrow> game_state \<Rightarrow> result" where
  "StaffSetOrdersQuery spriteIndex ordersId s =
     (case staffOrders s spriteIndex of
        None \<Rightarrow> Failure TargetNotFound
      | Some _ \<Rightarrow> Success)"

text \<open>
  Modelled from the spec: the body of
  \<^verbatim>\<open>StaffSetOrdersAction::Execute\<close> is missing. Execute "performs
  the mutation, returns the same result shape"; the parameters are "target entity
  identifier, order flags".
\<close>

definition StaffSetOrdersExecute ::
    "nat \<Rightarrow> 8 word \<Rightarrow> game_state \<Rightarrow> result \<times> game_state" where
  "StaffSetOrdersExecute spriteIndex ordersId s =
     (case staffOrders s spriteIndex of
        None \<Rightarrow> (Failure TargetNotFound, s)
      | Some _ \<Rightarrow> (Success, s\<lparr>staffOrders := (staffOrders s)(spriteIndex \<mapsto> ordersId)\<rparr>))"

text \<open>
  The header declares \<^verbatim>\<open>GetActionFlags\<close> without its value, so whether the action may
  run while paused is a parameter.
\<close>

definition StaffSetOrdersAction :: "bool \<Rightarrow> nat \<Rightarrow> 8 word \<Rightarrow> action" where
  "StaffSetOrdersAction whilePaused spriteIndex ordersId =
     \<lparr>allowedWhilePaused = whilePaused,
      Query = StaffSetOrdersQuery spriteIndex ordersId,
      Execute = StaffSetOrdersExecute spriteIndex ordersId\<rparr>"

text \<open>
  Modelled from the spec: the dispatcher is missing. "In a non-networked (local) session:
  Query then immediately Execute"; a failed Query is "surfaced as a structured error ...,
  no state change"; actions not exempt from pause-blocking "are rejected with a
  "simulation paused" failure while paused".
\<close>

definition Enqueue :: "action \<Rightarrow> game_state \<Rightarrow> result \<times> game_state \<times> pipeline_call list" where
  "Enqueue a s =
     (if simPaused s \<and> \<not> allowedWhilePaused a then (Failure SimulationPaused, s, [])
      else case Query a s of
             Failure e \<Rightarrow> (Failure e, s, [QueryCalled])
           | Success \<Rightarrow>
               (case Execute a s of (r, s') \<Rightarrow> (r, s', [QueryCalled, ExecuteCalled])))"

definition exampleGame :: game_state where
  "exampleGame = \<lparr>staffOrders = [3 \<mapsto> 1], simPaused = False\<rparr>"

section \<open>Auxiliary notions for the statements\<close>

text \<open>Fields that the tick loops and the drawing phase leave alone.\<close>

definition untouched :: "Context \<Rightarrow> Context \<Rightarrow> bool" where
  "untouched st st' \<longleftrightarrow>
     timeScale st' = timeScale st \<and>
     realtimeAccumulator st' = realtimeAccumulator st \<and>
     gCurrentRealTimeTicks st' = gCurrentRealTimeTicks st \<and>
     variableFrame st' = variableFrame st \<and>
     finished st' = finished st \<and>
     initialised st' = initialised st \<and>
     discordService st' = discordService st"

text \<open>The number of whole ticks held by the clamped accumulator of one poll.\<close>

definition frameTicks :: "config \<Rightarrow> real \<Rightarrow> Context \<Rightarrow> nat" where
  "frameTicks c dt st =
     nat \<lfloor>std_min (ticksAccumulator st + dt * timeScale st) (kGameUpdateMaxThreshold c)
          / kGameUpdateTimeMS c\<rfloor>"


definition isTweenerCall :: "extcall \<Rightarrow> bool" where
  "isTweenerCall e =
     (case e of TweenerRestore \<Rightarrow> True | TweenerReset \<Rightarrow> True | TweenerPreTick \<Rightarrow> True
      | TweenerPostTick \<Rightarrow> True | TweenerTween a \<Rightarrow> True | _ \<Rightarrow> False)"

text \<open>Concrete inputs: a 25 ms tick with a clamp of four ticks, and a context as constructed.\<close>

definition exampleConfig :: config where
  "exampleConfig = \<lparr>kGameUpdateTimeMS = 1 / 40, kGameUpdateMaxThreshold = 1 / 10,
                     enableDiscord = False, enableScripting = False\<rparr>"

definition freshContext :: Context where
  "freshContext = \<lparr>initialised = False, discordService = False, ticksAccumulator = 0,
                    realtimeAccumulator = 0, timeScale = 1, variableFrame = False,
                    finished = False, gCurrentRealTimeTicks = 0, gCurrentDeltaTime = 0,
                    gPaletteEffectFrame = 0, calls = []\<rparr>"

definition fixedPoll :: "real \<Rightarrow> poll" where
  "fixedPoll dt = \<lparr>deltaTime = dt, gOpenRCT2Headless = False, isMinimised = False,
                   uncapFPS = False, gGameSpeed = 1, gamePaused = False, introActive = False,
                   titleDemo = False, finishRequested = False\<rparr>"

definition variablePoll :: "real \<Rightarrow> poll" where
  "variablePoll dt = (fixedPoll dt)\<lparr>uncapFPS := True\<rparr>"

definition exampleStartup :: startup where
  "exampleStartup = \<lparr>lastRunVersionCurrent = True, languageOpens = True,
                      fallbackLanguageOpens = True, startHeadless = True, rct2PathFound = True,
                      processIsElevated = False, runningInWine = False, noGraphics = True,
                      baseGraphicsLoad = True\<rparr>"

section \<open>The scheduler in binary32 arithmetic\<close>

text \<open>
  How many ticks run and how long a frame sleeps depend on the rounding of the
  \<^verbatim>\<open>float\<close> operations. This section gives binary32 arithmetic and, with it, the same
  functions of \<^verbatim>\<open>Context.cpp\<close> once more: every sum, difference, product and quotient of
  accumulators is rounded to the nearest binary32 value, ties to even.

  A binary32 value is a real of the form \<open>m * 2 ^ e\<close> with an integer \<open>m\<close> below \<open>2 ^ 24\<close> in
  absolute value and \<open>e\<close> at least \<open>- 149\<close>. \<open>round32\<close> scales the absolute value into
  \<open>[2 ^ 23, 2 ^ 24)\<close> (or stops at the exponent \<open>- 149\<close> of the subnormal numbers), rounds the
  scaled value to an integer, half to even, and scales back. Overflow is not modelled: a
  result beyond the largest finite binary32 value, which the hardware turns into an
  infinity, stays finite here (after a positive overflow the clamp takes the threshold in
  both cases).
\<close>

definition roundHalfEven :: "real \<Rightarrow> int" where
  "roundHalfEven m =
     (let f = \<lfloor>m\<rfloor>; d = m - of_int f
      in if d < 1 / 2 then f
         else if 1 / 2 < d then f + 1
         else if even f then f else f + 1)"

function scaleDown :: "real \<Rightarrow> int \<Rightarrow> real \<times> int" where
  "scaleDown m e = (if 2 ^ 24 \<le> m then scaleDown (m / 2) (e + 1) else (m, e))"
  by pat_completeness auto
termination
proof (relation "measure (\<lambda>(m, e). nat \<lfloor>m\<rfloor>)")
  show "wf (measure (\<lambda>(m :: real, e :: int). nat \<lfloor>m\<rfloor>))" by simp
next
  fix m :: real and e :: int
  assume a: "2 ^ 24 \<le> m"
  have "m / 2 + 1 \<le> m" using a by simp
  hence "\<lfloor>m / 2 + 1\<rfloor> \<le> \<lfloor>m\<rfloor>" by (rule floor_mono)
  hence b: "\<lfloor>m / 2\<rfloor> + 1 \<le> \<lfloor>m\<rfloor>" by simp
  have "0 \<le> m / 2" using a by simp
  hence "0 \<le> \<lfloor>m / 2\<rfloor>" by simp
  with b have "nat \<lfloor>m / 2\<rfloor> < nat \<lfloor>m\<rfloor>" by linarith
  thus "((m / 2, e + 1), (m, e)) \<in> measure (\<lambda>(m, e). nat \<lfloor>m\<rfloor>)"
    by simp
qed

declare scaleDown.simps [simp del]

function scaleUp :: "real \<Rightarrow> int \<Rightarrow> real \<times> int" where
  "scaleUp m e = (if m < 2 ^ 23 \<and> - 149 < e then scaleUp (2 * m) (e - 1) else (m, e))"
  by pat_completeness auto
termination
  by (relation "measure (\<lambda>(m, e). nat (e + 149))") auto

declare scaleUp.simps [simp del]

definition scaled :: "real \<Rightarrow> int \<Rightarrow> real" where
  "scaled m e = (if 0 \<le> e then m * 2 ^ nat e else m / 2 ^ nat (- e))"

definition round32 :: "real \<Rightarrow> real" where
  "round32 x =
     (case scaleDown \<bar>x\<bar> 0 of (m1, e1) \<Rightarrow>
      case scaleUp m1 e1 of (m, e) \<Rightarrow>
        sgn x * scaled (of_int (roundHalfEven m)) e)"


text \<open>
  A real is a finite binary32 value when rounding leaves it as it is and it lies within the
  finite range.
\<close>

definition representable :: "real \<Rightarrow> bool" where
  "representable x \<longleftrightarrow> round32 x = x \<and> \<bar>x\<bar> < 2 ^ 128"

definition fadd :: "real \<Rightarrow> real \<Rightarrow> real" where
  "fadd a b = round32 (a + b)"

definition fsub :: "real \<Rightarrow> real \<Rightarrow> real" where
  "fsub a b = round32 (a - b)"

definition fmul :: "real \<Rightarrow> real \<Rightarrow> real" where
  "fmul a b = round32 (a * b)"

definition fdiv :: "real \<Rightarrow> real \<Rightarrow> real" where
  "fdiv a b = round32 (a / b)"

text \<open>The functions of the scheduler, with the operations of \<^verbatim>\<open>float\<close>.\<close>

definition Tick_f32 :: "config \<Rightarrow> poll \<Rightarrow> Context \<Rightarrow> Context" where
  "Tick_f32 c p st =
     (let st1 = st\<lparr>gCurrentDeltaTime := float_to_word (fmul (kGameUpdateTimeMS c) 1000)\<rparr>;
          st2 = (if \<not> gamePaused p
                 then st1\<lparr>gPaletteEffectFrame :=
                        gPaletteEffectFrame st1 + ucast (gCurrentDeltaTime st1)\<rparr>
                 else st1);
          st3 = invoke DateUpdateRealTimeOfDay st2;
          st4 = (if introActive p then invoke IntroUpdate st3
                 else if titleDemo p \<and> \<not> gOpenRCT2Headless p then invoke TitleScreenTick st3
                 else invoke GameStateTick st3);
          st5 = (if enableDiscord c \<and> discordService st4
                 then invoke DiscordServiceTick st4 else st4);
          st6 = invoke ChatUpdate st5;
          st7 = (if enableScripting c then invoke ScriptEngineTick st6 else st6);
          st8 = invoke ProcessEvalQueue st7
      in invoke UiContextTick st8)"

partial_function (option) DrainRealtime_f32 :: "config \<Rightarrow> Context \<Rightarrow> Context option" where
  "DrainRealtime_f32 c st =
     (if realtimeAccumulator st \<ge> kGameUpdateTimeMS c
      then DrainRealtime_f32 c
             (st\<lparr>gCurrentRealTimeTicks := gCurrentRealTimeTicks st + 1,
                 realtimeAccumulator := fsub (realtimeAccumulator st) (kGameUpdateTimeMS c)\<rparr>)
      else Some st)"

definition UpdateTimeAccumulators_f32 :: "config \<Rightarrow> real \<Rightarrow> Context \<Rightarrow> Context option" where
  "UpdateTimeAccumulators_f32 c dt st =
     (let scaledDeltaTime = fmul dt (timeScale st);
          st1 = st\<lparr>ticksAccumulator :=
                   std_min (fadd (ticksAccumulator st) scaledDeltaTime)
                     (kGameUpdateMaxThreshold c)\<rparr>;
          st2 = st1\<lparr>realtimeAccumulator :=
                   std_min (fadd (realtimeAccumulator st1) dt) (kGameUpdateMaxThreshold c)\<rparr>
      in DrainRealtime_f32 c st2)"

partial_function (option) FixedTickLoop_f32 ::
    "config \<Rightarrow> poll \<Rightarrow> Context \<Rightarrow> Context option" where
  "FixedTickLoop_f32 c p st =
     (if ticksAccumulator st \<ge> kGameUpdateTimeMS c
      then FixedTickLoop_f32 c p
             ((Tick_f32 c p st)\<lparr>ticksAccumulator :=
                 fsub (ticksAccumulator (Tick_f32 c p st)) (kGameUpdateTimeMS c)\<rparr>)
      else Some st)"

definition RunFixedFrame_f32 :: "config \<Rightarrow> poll \<Rightarrow> Context \<Rightarrow> Context option" where
  "RunFixedFrame_f32 c p st =
     (let st1 = ProcessMessages p st
      in if ticksAccumulator st1 < kGameUpdateTimeMS c
         then (let sleepTimeSec = fsub (kGameUpdateTimeMS c) (ticksAccumulator st1)
               in Some (invoke (PlatformSleep (float_to_word (fmul sleepTimeSec 1000))) st1))
         else (case FixedTickLoop_f32 c p st1 of
                 None \<Rightarrow> None
               | Some st2 \<Rightarrow>
                   (let st3 = invoke WindowUpdateAll (invoke ContextHandleInput st2)
                    in Some (if ShouldDraw p then Draw st3 else st3))))"

definition VariableTickBody_f32 :: "config \<Rightarrow> poll \<Rightarrow> bool \<Rightarrow> Context \<Rightarrow> Context" where
  "VariableTickBody_f32 c p shouldDraw st =
     (let st1 = (if shouldDraw then invoke TweenerPreTick st else st);
          st2 = Tick_f32 c p st1;
          st3 = st2\<lparr>ticksAccumulator := fsub (ticksAccumulator st2) (kGameUpdateTimeMS c)\<rparr>
      in if shouldDraw then invoke TweenerPostTick st3 else st3)"

partial_function (option) VariableTickLoop_f32 ::
    "config \<Rightarrow> poll \<Rightarrow> bool \<Rightarrow> Context \<Rightarrow> Context option" where
  "VariableTickLoop_f32 c p shouldDraw st =
     (if ticksAccumulator st \<ge> kGameUpdateTimeMS c
      then VariableTickLoop_f32 c p shouldDraw (VariableTickBody_f32 c p shouldDraw st)
      else Some st)"

definition RunVariableFrame_f32 :: "config \<Rightarrow> poll \<Rightarrow> Context \<Rightarrow> Context option" where
  "RunVariableFrame_f32 c p st =
     (let shouldDraw = ShouldDraw p;
          st1 = ProcessMessages p st
      in case VariableTickLoop_f32 c p shouldDraw st1 of
           None \<Rightarrow> None
         | Some st2 \<Rightarrow>
             (let st3 = invoke WindowUpdateAll (invoke ContextHandleInput st2)
              in Some (if shouldDraw
                       then (let alpha =
                                   std_min (fdiv (ticksAccumulator st3) (kGameUpdateTimeMS c)) 1
                             in Draw (invoke (TweenerTween alpha) st3))
                       else st3)))"

definition RunFrame_f32 :: "config \<Rightarrow> poll \<Rightarrow> Context \<Rightarrow> Context option" where
  "RunFrame_f32 c p st =
     (let useVariableFrame = ShouldRunVariableFrame p;
          st1 = SyncFrameMode useVariableFrame st
      in case UpdateTimeAccumulators_f32 c (deltaTime p) st1 of
           None \<Rightarrow> None
         | Some st2 \<Rightarrow>
             if useVariableFrame then RunVariableFrame_f32 c p st2
             else RunFixedFrame_f32 c p st2)"


text \<open>
  No subtraction of the tick duration rounds while an accumulator worth \<open>a\<close> is drained;
  no operation of one poll rounds; no operation of a sequence of polls rounds; and no poll
  of a sequence reaches the clamp of the ticks accumulator.
\<close>

definition exactSteps :: "real \<Rightarrow> real \<Rightarrow> bool" where
  "exactSteps a td =
     (\<forall>k\<in>set [1..<Suc (nat \<lfloor>a / td\<rfloor>)]. representable (a - real k * td))"

definition exactPoll :: "config \<Rightarrow> poll \<Rightarrow> Context \<Rightarrow> bool" where
  "exactPoll c p st =
     (let s = deltaTime p * timeScale st;
          a = ticksAccumulator st + s;
          r = realtimeAccumulator st + deltaTime p
      in representable s \<and> representable a \<and> representable r \<and>
         exactSteps (std_min a (kGameUpdateMaxThreshold c)) (kGameUpdateTimeMS c) \<and>
         exactSteps (std_min r (kGameUpdateMaxThreshold c)) (kGameUpdateTimeMS c))"



text \<open>A 25 ms tick and a clamp of 100 ms, as binary32 values.\<close>

definition binary32Config :: config where
  "binary32Config = \<lparr>kGameUpdateTimeMS = round32 (1 / 40),
                      kGameUpdateMaxThreshold = round32 (1 / 10),
                      enableDiscord = False, enableScripting = False\<rparr>"

section \<open>Auxiliary lemmas\<close>

lemma nat_floor_step:
  fixes r td :: real
  assumes "0 < td" "td \<le> r"
  shows "nat \<lfloor>r / td\<rfloor> = Suc (nat \<lfloor>(r - td) / td\<rfloor>)"
proof -
  define n where "n = \<lfloor>r / td\<rfloor>"
  have "(r - td) / td = r / td - 1" using assms by (simp add: diff_divide_distrib)
  hence e: "\<lfloor>(r - td) / td\<rfloor> = n - 1" by (simp add: n_def)
  have "1 \<le> r / td" using assms by simp
  hence "1 \<le> n" unfolding n_def by linarith
  thus ?thesis unfolding e n_def[symmetric] by linarith
qed

lemma nat_floor_zero:
  fixes r td :: real
  assumes "0 < td" "r < td"
  shows "nat \<lfloor>r / td\<rfloor> = 0"
proof -
  have "r / td < 1" using assms by simp
  hence "\<lfloor>r / td\<rfloor> < 1" by linarith
  thus ?thesis by simp
qed

lemma DrainRealtime_closed:
  assumes td: "0 < kGameUpdateTimeMS c"
  shows "nat \<lfloor>realtimeAccumulator st / kGameUpdateTimeMS c\<rfloor> = k \<Longrightarrow>
         DrainRealtime c st =
           Some (st\<lparr>gCurrentRealTimeTicks := gCurrentRealTimeTicks st + of_nat k,
                    realtimeAccumulator := realtimeAccumulator st - real k * kGameUpdateTimeMS c\<rparr>)"
proof (induction k arbitrary: st)
  case 0
  have "realtimeAccumulator st < kGameUpdateTimeMS c"
  proof (rule ccontr)
    assume "\<not> ?thesis"
    hence "kGameUpdateTimeMS c \<le> realtimeAccumulator st" by simp
    from nat_floor_step[OF td this] 0 show False by simp
  qed
  thus ?case by (subst DrainRealtime.simps) simp
next
  case (Suc k)
  have ge: "kGameUpdateTimeMS c \<le> realtimeAccumulator st"
  proof (rule ccontr)
    assume "\<not> ?thesis"
    hence "realtimeAccumulator st < kGameUpdateTimeMS c" by simp
    from nat_floor_zero[OF td this] Suc.prems show False by simp
  qed
  let ?st = "st\<lparr>gCurrentRealTimeTicks := gCurrentRealTimeTicks st + 1,
                 realtimeAccumulator := realtimeAccumulator st - kGameUpdateTimeMS c\<rparr>"
  have "nat \<lfloor>realtimeAccumulator ?st / kGameUpdateTimeMS c\<rfloor> = k"
    using nat_floor_step[OF td ge] Suc.prems by simp
  from Suc.IH[OF this] ge show ?case
    by (subst DrainRealtime.simps) (simp add: algebra_simps)
qed




lemma untouched_refl [simp]: "untouched st st"
  by (simp add: untouched_def)

lemma untouched_trans: "untouched a b \<Longrightarrow> untouched b d \<Longrightarrow> untouched a d"
  by (simp add: untouched_def)

lemma invoke_fields [simp]:
  "ticksAccumulator (invoke e st) = ticksAccumulator st"
  "calls (invoke e st) = calls st @ [e]"
  "untouched st' (invoke e st) = untouched st' st"
  by (simp_all add: invoke_def untouched_def)

lemma ticksRun_simps [simp]:
  "ticksRun [] = 0"
  "ticksRun (xs @ ys) = ticksRun xs + ticksRun ys"
  "ticksRun (e # xs) = (if e = UiContextTick then 1 else 0) + ticksRun xs"
  by (simp_all add: ticksRun_def)

lemma Tick_acc [simp]: "ticksAccumulator (Tick c p st) = ticksAccumulator st"
  by (simp add: Tick_def Let_def)

lemma Tick_untouched [simp]: "untouched st (Tick c p st)"
  by (simp add: Tick_def Let_def untouched_def invoke_def)

lemma Tick_ticksRun [simp]: "ticksRun (calls (Tick c p st)) = Suc (ticksRun (calls st))"
  by (simp add: Tick_def Let_def)

lemma FixedTickLoop_closed:
  assumes td: "0 < kGameUpdateTimeMS c"
  shows "nat \<lfloor>ticksAccumulator st / kGameUpdateTimeMS c\<rfloor> = k \<Longrightarrow>
         \<exists>st'. FixedTickLoop c p st = Some st' \<and>
               ticksAccumulator st' = ticksAccumulator st - real k * kGameUpdateTimeMS c \<and>
               ticksRun (calls st') = ticksRun (calls st) + k \<and>
               untouched st st'"
proof (induction k arbitrary: st)
  case 0
  have "ticksAccumulator st < kGameUpdateTimeMS c"
  proof (rule ccontr)
    assume "\<not> ?thesis"
    hence "kGameUpdateTimeMS c \<le> ticksAccumulator st" by simp
    from nat_floor_step[OF td this] 0 show False by simp
  qed
  thus ?case by (subst FixedTickLoop.simps) simp
next
  case (Suc k)
  have ge: "kGameUpdateTimeMS c \<le> ticksAccumulator st"
  proof (rule ccontr)
    assume "\<not> ?thesis"
    hence "ticksAccumulator st < kGameUpdateTimeMS c" by simp
    from nat_floor_zero[OF td this] Suc.prems show False by simp
  qed
  let ?st = "(Tick c p st)\<lparr>ticksAccumulator :=
                 ticksAccumulator (Tick c p st) - kGameUpdateTimeMS c\<rparr>"
  have k: "nat \<lfloor>ticksAccumulator ?st / kGameUpdateTimeMS c\<rfloor> = k"
    using nat_floor_step[OF td ge] Suc.prems by simp
  have u: "untouched st ?st"
    using Tick_untouched[of st c p] by (simp add: untouched_def)
  from Suc.IH[OF k] obtain st' where
    st': "FixedTickLoop c p ?st = Some st'"
      "ticksAccumulator st' = ticksAccumulator ?st - real k * kGameUpdateTimeMS c"
      "ticksRun (calls st') = ticksRun (calls ?st) + k"
      "untouched ?st st'" by blast
  have "FixedTickLoop c p st = Some st'"
    using ge st'(1) by (subst FixedTickLoop.simps) simp
  moreover have "ticksAccumulator st' = ticksAccumulator st - real (Suc k) * kGameUpdateTimeMS c"
    using st'(2) by (simp add: algebra_simps)
  moreover have "ticksRun (calls st') = ticksRun (calls st) + Suc k"
    using st'(3) by simp
  moreover have "untouched st st'" using u st'(4) by (rule untouched_trans)
  ultimately show ?case by blast
qed




lemma Tick_more [simp]:
  "timeScale (Tick c p st) = timeScale st"
  "realtimeAccumulator (Tick c p st) = realtimeAccumulator st"
  "gCurrentRealTimeTicks (Tick c p st) = gCurrentRealTimeTicks st"
  "variableFrame (Tick c p st) = variableFrame st"
  "finished (Tick c p st) = finished st"
  "initialised (Tick c p st) = initialised st"
  "discordService (Tick c p st) = discordService st"
  by (simp_all add: Tick_def Let_def invoke_def)

lemma VariableTickBody_acc [simp]:
  "ticksAccumulator (VariableTickBody c p d st) = ticksAccumulator st - kGameUpdateTimeMS c"
  by (simp add: VariableTickBody_def Let_def)

lemma VariableTickBody_ticksRun [simp]:
  "ticksRun (calls (VariableTickBody c p d st)) = Suc (ticksRun (calls st))"
  by (simp add: VariableTickBody_def Let_def)

lemma VariableTickBody_untouched: "untouched st (VariableTickBody c p d st)"
  by (simp add: VariableTickBody_def Let_def untouched_def invoke_def)

lemma VariableTickLoop_closed:
  assumes td: "0 < kGameUpdateTimeMS c"
  shows "nat \<lfloor>ticksAccumulator st / kGameUpdateTimeMS c\<rfloor> = k \<Longrightarrow>
         \<exists>st'. VariableTickLoop c p d st = Some st' \<and>
               ticksAccumulator st' = ticksAccumulator st - real k * kGameUpdateTimeMS c \<and>
               ticksRun (calls st') = ticksRun (calls st) + k \<and>
               untouched st st'"
proof (induction k arbitrary: st)
  case 0
  have "ticksAccumulator st < kGameUpdateTimeMS c"
  proof (rule ccontr)
    assume "\<not> ?thesis"
    hence "kGameUpdateTimeMS c \<le> ticksAccumulator st" by simp
    from nat_floor_step[OF td this] 0 show False by simp
  qed
  thus ?case by (subst VariableTickLoop.simps) simp
next
  case (Suc k)
  have ge: "kGameUpdateTimeMS c \<le> ticksAccumulator st"
  proof (rule ccontr)
    assume "\<not> ?thesis"
    hence "ticksAccumulator st < kGameUpdateTimeMS c" by simp
    from nat_floor_zero[OF td this] Suc.prems show False by simp
  qed
  let ?st = "VariableTickBody c p d st"
  have k: "nat \<lfloor>ticksAccumulator ?st / kGameUpdateTimeMS c\<rfloor> = k"
    using nat_floor_step[OF td ge] Suc.prems by simp
  from Suc.IH[OF k] obtain st' where
    st': "VariableTickLoop c p d ?st = Some st'"
      "ticksAccumulator st' = ticksAccumulator ?st - real k * kGameUpdateTimeMS c"
      "ticksRun (calls st') = ticksRun (calls ?st) + k"
      "untouched ?st st'" by blast
  have "VariableTickLoop c p d st = Some st'"
    using ge st'(1) by (subst VariableTickLoop.simps) simp
  moreover have "ticksAccumulator st' = ticksAccumulator st - real (Suc k) * kGameUpdateTimeMS c"
    using st'(2) by (simp add: algebra_simps)
  moreover have "ticksRun (calls st') = ticksRun (calls st) + Suc k"
    using st'(3) by simp
  moreover have "untouched st st'"
    using VariableTickBody_untouched st'(4) by (rule untouched_trans)
  ultimately show ?case by blast
qed

lemma UpdateTimeAccumulators_closed:
  assumes td: "0 < kGameUpdateTimeMS c"
  shows "UpdateTimeAccumulators c dt st =
     Some (st\<lparr>ticksAccumulator :=
                std_min (ticksAccumulator st + dt * timeScale st) (kGameUpdateMaxThreshold c),
              realtimeAccumulator :=
                std_min (realtimeAccumulator st + dt) (kGameUpdateMaxThreshold c)
                - real (nat \<lfloor>std_min (realtimeAccumulator st + dt) (kGameUpdateMaxThreshold c)
                              / kGameUpdateTimeMS c\<rfloor>) * kGameUpdateTimeMS c,
              gCurrentRealTimeTicks := gCurrentRealTimeTicks st
                + of_nat (nat \<lfloor>std_min (realtimeAccumulator st + dt) (kGameUpdateMaxThreshold c)
                              / kGameUpdateTimeMS c\<rfloor>)\<rparr>)"
  unfolding UpdateTimeAccumulators_def Let_def
  by (subst DrainRealtime_closed[OF td refl]) simp

lemma invoke_more [simp]:
  "timeScale (invoke e st) = timeScale st"
  "realtimeAccumulator (invoke e st) = realtimeAccumulator st"
  "gCurrentRealTimeTicks (invoke e st) = gCurrentRealTimeTicks st"
  "variableFrame (invoke e st) = variableFrame st"
  "finished (invoke e st) = finished st"
  by (simp_all add: invoke_def)

lemma untouchedD:
  assumes "untouched st st'"
  shows "timeScale st' = timeScale st" "realtimeAccumulator st' = realtimeAccumulator st"
    "gCurrentRealTimeTicks st' = gCurrentRealTimeTicks st"
    "variableFrame st' = variableFrame st" "finished st' = finished st"
  using assms by (simp_all add: untouched_def)

lemma ProcessMessages_fields [simp]:
  "ticksAccumulator (ProcessMessages p st) = ticksAccumulator st"
  "calls (ProcessMessages p st) = calls st @ [UiProcessMessages]"
  "finished (ProcessMessages p st) = (finished st \<or> finishRequested p)"
  "timeScale (ProcessMessages p st) = timeScale st"
  "realtimeAccumulator (ProcessMessages p st) = realtimeAccumulator st"
  "gCurrentRealTimeTicks (ProcessMessages p st) = gCurrentRealTimeTicks st"
  "variableFrame (ProcessMessages p st) = variableFrame st"
  by (auto simp add: ProcessMessages_def Let_def Finish_def invoke_def)

lemma Draw_fields [simp]:
  "ticksAccumulator (Draw st) = ticksAccumulator st"
  "calls (Draw st) = calls st @ [BeginDraw, PainterPaint, EndDraw]"
  "untouched st' (Draw st) = untouched st' st"
  "timeScale (Draw st) = timeScale st"
  "realtimeAccumulator (Draw st) = realtimeAccumulator st"
  "gCurrentRealTimeTicks (Draw st) = gCurrentRealTimeTicks st"
  "variableFrame (Draw st) = variableFrame st"
  "finished (Draw st) = finished st"
  by (simp_all add: Draw_def)

lemma RunFixedFrame_result:
  assumes td: "0 < kGameUpdateTimeMS c"
  shows "\<exists>st'. RunFixedFrame c p st = Some st' \<and>
           ticksAccumulator st' = ticksAccumulator st
              - real (nat \<lfloor>ticksAccumulator st / kGameUpdateTimeMS c\<rfloor>) * kGameUpdateTimeMS c \<and>
           ticksRun (calls st') = ticksRun (calls st)
              + nat \<lfloor>ticksAccumulator st / kGameUpdateTimeMS c\<rfloor> \<and>
           timeScale st' = timeScale st \<and>
           realtimeAccumulator st' = realtimeAccumulator st \<and>
           gCurrentRealTimeTicks st' = gCurrentRealTimeTicks st \<and>
           variableFrame st' = variableFrame st \<and>
           finished st' = (finished st \<or> finishRequested p)"
proof (cases "ticksAccumulator st < kGameUpdateTimeMS c")
  case True
  from nat_floor_zero[OF td True] True show ?thesis
    by (simp add: RunFixedFrame_def Let_def invoke_def)
next
  case False
  let ?st1 = "ProcessMessages p st"
  from FixedTickLoop_closed[OF td refl, where st = ?st1 and p = p] obtain st2 where
    st2: "FixedTickLoop c p ?st1 = Some st2"
      "ticksAccumulator st2 = ticksAccumulator ?st1
         - real (nat \<lfloor>ticksAccumulator ?st1 / kGameUpdateTimeMS c\<rfloor>) * kGameUpdateTimeMS c"
      "ticksRun (calls st2) = ticksRun (calls ?st1)
         + nat \<lfloor>ticksAccumulator ?st1 / kGameUpdateTimeMS c\<rfloor>"
      "untouched ?st1 st2" by blast
  note u = untouchedD[OF st2(4)]
  from False st2(1-3) u show ?thesis
    by (simp add: RunFixedFrame_def Let_def)
qed

lemma RunVariableFrame_result:
  assumes td: "0 < kGameUpdateTimeMS c"
  shows "\<exists>st'. RunVariableFrame c p st = Some st' \<and>
           ticksAccumulator st' = ticksAccumulator st
              - real (nat \<lfloor>ticksAccumulator st / kGameUpdateTimeMS c\<rfloor>) * kGameUpdateTimeMS c \<and>
           ticksRun (calls st') = ticksRun (calls st)
              + nat \<lfloor>ticksAccumulator st / kGameUpdateTimeMS c\<rfloor> \<and>
           timeScale st' = timeScale st \<and>
           realtimeAccumulator st' = realtimeAccumulator st \<and>
           gCurrentRealTimeTicks st' = gCurrentRealTimeTicks st \<and>
           variableFrame st' = variableFrame st \<and>
           finished st' = (finished st \<or> finishRequested p)"
proof -
  let ?st1 = "ProcessMessages p st"
  from VariableTickLoop_closed[OF td refl, where st = ?st1 and p = p and d = "ShouldDraw p"] obtain st2 where
    st2: "VariableTickLoop c p (ShouldDraw p) ?st1 = Some st2"
      "ticksAccumulator st2 = ticksAccumulator ?st1
         - real (nat \<lfloor>ticksAccumulator ?st1 / kGameUpdateTimeMS c\<rfloor>) * kGameUpdateTimeMS c"
      "ticksRun (calls st2) = ticksRun (calls ?st1)
         + nat \<lfloor>ticksAccumulator ?st1 / kGameUpdateTimeMS c\<rfloor>"
      "untouched ?st1 st2" by blast
  note u = untouchedD[OF st2(4)]
  from st2(1-3) u show ?thesis
    by (simp add: RunVariableFrame_def Let_def)
qed

lemma RunFrame_result:
  assumes td: "0 < kGameUpdateTimeMS c"
  shows "\<exists>st'. RunFrame c p st = Some st' \<and>
           ticksAccumulator st' =
              std_min (ticksAccumulator st + deltaTime p * timeScale st) (kGameUpdateMaxThreshold c)
              - real (frameTicks c (deltaTime p) st) * kGameUpdateTimeMS c \<and>
           ticksRun (calls st') = ticksRun (calls st) + frameTicks c (deltaTime p) st \<and>
           timeScale st' = timeScale st \<and>
           realtimeAccumulator st' =
              std_min (realtimeAccumulator st + deltaTime p) (kGameUpdateMaxThreshold c)
              - real (nat \<lfloor>std_min (realtimeAccumulator st + deltaTime p) (kGameUpdateMaxThreshold c)
                            / kGameUpdateTimeMS c\<rfloor>) * kGameUpdateTimeMS c \<and>
           gCurrentRealTimeTicks st' = gCurrentRealTimeTicks st
              + of_nat (nat \<lfloor>std_min (realtimeAccumulator st + deltaTime p) (kGameUpdateMaxThreshold c)
                            / kGameUpdateTimeMS c\<rfloor>) \<and>
           variableFrame st' = ShouldRunVariableFrame p \<and>
           finished st' = (finished st \<or> finishRequested p)"
proof -
  let ?st1 = "SyncFrameMode (ShouldRunVariableFrame p) st"
  have f1: "ticksAccumulator ?st1 = ticksAccumulator st" "timeScale ?st1 = timeScale st"
    "realtimeAccumulator ?st1 = realtimeAccumulator st"
    "gCurrentRealTimeTicks ?st1 = gCurrentRealTimeTicks st"
    "variableFrame ?st1 = ShouldRunVariableFrame p" "finished ?st1 = finished st"
    "ticksRun (calls ?st1) = ticksRun (calls st)"
    by (auto simp add: SyncFrameMode_def invoke_def)
  obtain st2 where st2: "UpdateTimeAccumulators c (deltaTime p) ?st1 = Some st2"
     and f2: "ticksAccumulator st2 =
                std_min (ticksAccumulator st + deltaTime p * timeScale st) (kGameUpdateMaxThreshold c)"
       "timeScale st2 = timeScale st"
       "realtimeAccumulator st2 =
              std_min (realtimeAccumulator st + deltaTime p) (kGameUpdateMaxThreshold c)
              - real (nat \<lfloor>std_min (realtimeAccumulator st + deltaTime p) (kGameUpdateMaxThreshold c)
                            / kGameUpdateTimeMS c\<rfloor>) * kGameUpdateTimeMS c"
       "gCurrentRealTimeTicks st2 = gCurrentRealTimeTicks st
              + of_nat (nat \<lfloor>std_min (realtimeAccumulator st + deltaTime p) (kGameUpdateMaxThreshold c)
                            / kGameUpdateTimeMS c\<rfloor>)"
       "variableFrame st2 = ShouldRunVariableFrame p" "finished st2 = finished st"
       "ticksRun (calls st2) = ticksRun (calls st)"
    unfolding UpdateTimeAccumulators_closed[OF td] using f1 by (auto simp add: invoke_def)
  have rf: "RunFrame c p st =
     (if ShouldRunVariableFrame p then RunVariableFrame c p st2 else RunFixedFrame c p st2)"
    using st2 by (simp add: RunFrame_def Let_def)
  show ?thesis
  proof (cases "ShouldRunVariableFrame p")
    case True
    from RunVariableFrame_result[OF td, where p = p and st = st2] True rf f2 show ?thesis
      by (auto simp add: frameTicks_def)
  next
    case False
    from RunFixedFrame_result[OF td, where p = p and st = st2] False rf f2 show ?thesis
      by (auto simp add: frameTicks_def)
  qed
qed






lemma std_min_le: "std_min a b \<le> b" "std_min a b \<le> a"
  by (simp_all add: std_min_def)


lemmas eval_defs = exampleConfig_def freshContext_def fixedPoll_def variablePoll_def
  RunFrame_def SyncFrameMode_def RunFixedFrame_def RunVariableFrame_def
  UpdateTimeAccumulators_def ShouldRunVariableFrame_def ShouldDraw_def ProcessMessages_def
  Finish_def invoke_def Draw_def Tick_def VariableTickBody_def std_min_def float_to_word_def
  Let_def DrainRealtime.simps FixedTickLoop.simps VariableTickLoop.simps

lemma Tick_calls:
  "\<exists>cs. calls (Tick c p st) = calls st @ cs \<and> (\<forall>e\<in>set cs. \<not> isTweenerCall e)"
  by (simp add: Tick_def Let_def invoke_def isTweenerCall_def)

lemma FixedTickLoop_calls:
  assumes "FixedTickLoop c p st = Some st'"
  shows "\<exists>cs. calls st' = calls st @ cs \<and> (\<forall>e\<in>set cs. \<not> isTweenerCall e)"
proof (rule FixedTickLoop.raw_induct[where
      P = "\<lambda>c p st st'. \<exists>cs. calls st' = calls st @ cs \<and> (\<forall>e\<in>set cs. \<not> isTweenerCall e)",
      OF _ assms])
  fix f :: "config \<Rightarrow> poll \<Rightarrow> Context \<Rightarrow> Context option" and c p st y
  assume IH: "\<And>c p st y. f c p st = Some y \<Longrightarrow>
           \<exists>cs. calls y = calls st @ cs \<and> (\<forall>e\<in>set cs. \<not> isTweenerCall e)"
    and eq: "(if kGameUpdateTimeMS c \<le> ticksAccumulator st
              then f c p ((Tick c p st)\<lparr>ticksAccumulator :=
                     ticksAccumulator (Tick c p st) - kGameUpdateTimeMS c\<rparr>)
              else Some st) = Some y"
  show "\<exists>cs. calls y = calls st @ cs \<and> (\<forall>e\<in>set cs. \<not> isTweenerCall e)"
  proof (cases "kGameUpdateTimeMS c \<le> ticksAccumulator st")
    case True
    let ?st = "(Tick c p st)\<lparr>ticksAccumulator :=
                 ticksAccumulator (Tick c p st) - kGameUpdateTimeMS c\<rparr>"
    from eq True have "f c p ?st = Some y" by simp
    from IH[OF this] obtain cs where
      cs: "calls y = calls ?st @ cs" "\<forall>e\<in>set cs. \<not> isTweenerCall e" by blast
    from Tick_calls[of c p st] obtain ts where
      ts: "calls (Tick c p st) = calls st @ ts" "\<forall>e\<in>set ts. \<not> isTweenerCall e" by blast
    have "calls y = calls st @ (ts @ cs)" using cs(1) ts(1) by simp
    moreover have "\<forall>e\<in>set (ts @ cs). \<not> isTweenerCall e" using cs(2) ts(2) by auto
    ultimately show ?thesis by blast
  next
    case False
    with eq show ?thesis by simp
  qed
qed

lemma VariableTickLoop_calls:
  assumes "VariableTickLoop c p d st = Some st'"
  shows "\<exists>cs. calls st' = calls st @ cs"
proof (rule VariableTickLoop.raw_induct[where
      P = "\<lambda>c p d st st'. \<exists>cs. calls st' = calls st @ cs", OF _ assms])
  fix f :: "config \<Rightarrow> poll \<Rightarrow> bool \<Rightarrow> Context \<Rightarrow> Context option" and c p d st y
  assume IH: "\<And>c p d st y. f c p d st = Some y \<Longrightarrow> \<exists>cs. calls y = calls st @ cs"
    and eq: "(if kGameUpdateTimeMS c \<le> ticksAccumulator st
              then f c p d (VariableTickBody c p d st)
              else Some st) = Some y"
  show "\<exists>cs. calls y = calls st @ cs"
  proof (cases "kGameUpdateTimeMS c \<le> ticksAccumulator st")
    case True
    from eq True have "f c p d (VariableTickBody c p d st) = Some y" by simp
    from IH[OF this] obtain cs where
      cs: "calls y = calls (VariableTickBody c p d st) @ cs" by blast
    from Tick_calls[of c p "invoke TweenerPreTick st"] Tick_calls[of c p st]
    have "\<exists>ts. calls (VariableTickBody c p d st) = calls st @ ts"
      by (auto simp add: VariableTickBody_def Let_def)
    with cs show ?thesis by auto
  next
    case False
    with eq show ?thesis by simp
  qed
qed

lemma RunFixedFrame_calls:
  assumes "RunFixedFrame c p st = Some st'"
  shows "\<exists>cs. calls st' = calls st @ UiProcessMessages # cs \<and> (\<forall>e\<in>set cs. \<not> isTweenerCall e)"
proof (cases "ticksAccumulator st < kGameUpdateTimeMS c")
  case True
  with assms show ?thesis
    by (auto simp add: RunFixedFrame_def Let_def isTweenerCall_def)
next
  case False
  with assms obtain st2 where l: "FixedTickLoop c p (ProcessMessages p st) = Some st2"
    and r: "st' = (if ShouldDraw p then Draw (invoke WindowUpdateAll (invoke ContextHandleInput st2))
                   else invoke WindowUpdateAll (invoke ContextHandleInput st2))"
    by (auto simp add: RunFixedFrame_def Let_def split: option.splits)
  from FixedTickLoop_calls[OF l] obtain cs where
    cs: "calls st2 = calls st @ UiProcessMessages # cs" "\<forall>e\<in>set cs. \<not> isTweenerCall e"
    by auto
  show ?thesis
  proof (cases "ShouldDraw p")
    case True
    hence "calls st' = calls st @ UiProcessMessages #
             (cs @ [ContextHandleInput, WindowUpdateAll, BeginDraw, PainterPaint, EndDraw])"
      using r cs(1) by simp
    moreover have "\<forall>e\<in>set (cs @ [ContextHandleInput, WindowUpdateAll, BeginDraw,
                      PainterPaint, EndDraw]). \<not> isTweenerCall e"
      using cs(2) by (auto simp add: isTweenerCall_def)
    ultimately show ?thesis by blast
  next
    case False
    hence "calls st' = calls st @ UiProcessMessages # (cs @ [ContextHandleInput, WindowUpdateAll])"
      using r cs(1) by simp
    moreover have "\<forall>e\<in>set (cs @ [ContextHandleInput, WindowUpdateAll]). \<not> isTweenerCall e"
      using cs(2) by (auto simp add: isTweenerCall_def)
    ultimately show ?thesis by blast
  qed
qed

lemma RunVariableFrame_calls:
  assumes "RunVariableFrame c p st = Some st'"
  shows "\<exists>cs. calls st' = calls st @ UiProcessMessages # cs"
proof -
  from assms obtain st2 where
    l: "VariableTickLoop c p (ShouldDraw p) (ProcessMessages p st) = Some st2"
    and r: "\<exists>ds. calls st' = calls st2 @ ds"
    by (auto simp add: RunVariableFrame_def Let_def split: option.splits if_splits)
  from VariableTickLoop_calls[OF l] r show ?thesis by auto
qed

lemma UpdateTimeAccumulators_calls:
  assumes "0 < kGameUpdateTimeMS c" "UpdateTimeAccumulators c dt st = Some st'"
  shows "calls st' = calls st"
  using assms(2) unfolding UpdateTimeAccumulators_closed[OF assms(1)] by auto

lemma unat_float_to_word:
  assumes "0 \<le> x" "x < 2 ^ 32"
  shows "unat (float_to_word x :: 32 word) = nat \<lfloor>x\<rfloor>"
proof -
  have "0 \<le> \<lfloor>x\<rfloor>" using assms(1) by simp
  moreover have "\<lfloor>x\<rfloor> < 2 ^ 32" using assms(2) by (simp add: floor_less_iff)
  ultimately have "\<lfloor>x\<rfloor> mod 2 ^ 32 = \<lfloor>x\<rfloor>" by simp
  thus ?thesis using assms(1)
    by (simp add: float_to_word_def unat_eq_nat_uint uint_word_of_int)
qed


lemma invokes_initialised [simp]: "initialised (invokes es st) = initialised st"
  by (simp add: invokes_def)

lemma invoke_initialised [simp]: "initialised (invoke e st) = initialised st"
  by (simp add: invoke_def)

lemma InitialiseServices_initialised:
  "initialised (snd (InitialiseServices c s st)) = initialised st"
  by (simp add: InitialiseServices_def Let_def)

lemma Initialise_Inr_initialised: "Initialise c s st = Inr r \<Longrightarrow> initialised (snd r)"
  by (auto simp add: Initialise_def Let_def InitialiseServices_initialised split: if_splits)

lemmas round32_eval = round32_def scaleDown.simps scaleUp.simps scaled_def roundHalfEven_def

lemma round32_values:
  "round32 (1 / 40) = 13421773 / 2 ^ 29"
  "round32 (1 / 10) = 13421773 / 2 ^ 27"
  "round32 (1 / 100) = 10737418 / 2 ^ 30"
  "round32 (1 / 16) = 1 / 16"
  "round32 (1 / 125) = 8589935 / 2 ^ 30"
  "round32 (21 / 2000) = 11274289 / 2 ^ 30"
  by (simp_all add: round32_eval Let_def)

lemmas eval_f32_defs = binary32Config_def freshContext_def fixedPoll_def variablePoll_def
  RunFrame_f32_def SyncFrameMode_def RunFixedFrame_f32_def RunVariableFrame_f32_def
  UpdateTimeAccumulators_f32_def ShouldRunVariableFrame_def ShouldDraw_def ProcessMessages_def
  Finish_def invoke_def Draw_def Tick_f32_def VariableTickBody_f32_def std_min_def
  float_to_word_def fadd_def fsub_def fmul_def fdiv_def round32_eval
  Let_def DrainRealtime_f32.simps FixedTickLoop_f32.simps VariableTickLoop_f32.simps




lemma Tick_f32_fields [simp]:
  "ticksAccumulator (Tick_f32 c p st) = ticksAccumulator st"
  "timeScale (Tick_f32 c p st) = timeScale st"
  "realtimeAccumulator (Tick_f32 c p st) = realtimeAccumulator st"
  "gCurrentRealTimeTicks (Tick_f32 c p st) = gCurrentRealTimeTicks st"
  "variableFrame (Tick_f32 c p st) = variableFrame st"
  "finished (Tick_f32 c p st) = finished st"
  "initialised (Tick_f32 c p st) = initialised st"
  "discordService (Tick_f32 c p st) = discordService st"
  by (simp_all add: Tick_f32_def Let_def invoke_def)

lemma Tick_f32_ticksRun [simp]:
  "ticksRun (calls (Tick_f32 c p st)) = Suc (ticksRun (calls st))"
  by (simp add: Tick_f32_def Let_def)

lemma Tick_f32_untouched [simp]: "untouched st (Tick_f32 c p st)"
  by (simp add: untouched_def)




lemma VariableTickBody_f32_ticksRun [simp]:
  "ticksRun (calls (VariableTickBody_f32 c p d st)) = Suc (ticksRun (calls st))"
  by (simp add: VariableTickBody_f32_def Let_def)








lemma SyncFrameMode_fields [simp]:
  "ticksAccumulator (SyncFrameMode v st) = ticksAccumulator st"
  "timeScale (SyncFrameMode v st) = timeScale st"
  "realtimeAccumulator (SyncFrameMode v st) = realtimeAccumulator st"
  "gCurrentRealTimeTicks (SyncFrameMode v st) = gCurrentRealTimeTicks st"
  "ticksRun (calls (SyncFrameMode v st)) = ticksRun (calls st)"
  by (simp_all add: SyncFrameMode_def)

lemma exactPoll_Sync [simp]: "exactPoll c p (SyncFrameMode v st) = exactPoll c p st"
  by (simp add: exactPoll_def)










lemma DrainRealtime_f32_keeps:
  assumes "DrainRealtime_f32 c st = Some st'"
  shows "ticksAccumulator st' = ticksAccumulator st \<and> calls st' = calls st"
proof (rule DrainRealtime_f32.raw_induct[where
      P = "\<lambda>c st st'. ticksAccumulator st' = ticksAccumulator st \<and> calls st' = calls st",
      OF _ assms])
  fix f :: "config \<Rightarrow> Context \<Rightarrow> Context option" and c st y
  assume IH: "\<And>c st y. f c st = Some y \<Longrightarrow>
           ticksAccumulator y = ticksAccumulator st \<and> calls y = calls st"
    and eq: "(if kGameUpdateTimeMS c \<le> realtimeAccumulator st
              then f c (st\<lparr>gCurrentRealTimeTicks := gCurrentRealTimeTicks st + 1,
                     realtimeAccumulator := fsub (realtimeAccumulator st) (kGameUpdateTimeMS c)\<rparr>)
              else Some st) = Some y"
  show "ticksAccumulator y = ticksAccumulator st \<and> calls y = calls st"
  proof (cases "kGameUpdateTimeMS c \<le> realtimeAccumulator st")
    case True
    with eq have "f c (st\<lparr>gCurrentRealTimeTicks := gCurrentRealTimeTicks st + 1,
                     realtimeAccumulator := fsub (realtimeAccumulator st) (kGameUpdateTimeMS c)\<rparr>)
                  = Some y" by simp
    from IH[OF this] show ?thesis by simp
  next
    case False
    with eq show ?thesis by simp
  qed
qed

lemma UpdateTimeAccumulators_f32_keeps:
  assumes "UpdateTimeAccumulators_f32 c dt st = Some st'"
  shows "ticksAccumulator st' =
           std_min (fadd (ticksAccumulator st) (fmul dt (timeScale st))) (kGameUpdateMaxThreshold c)"
    and "calls st' = calls st"
  using DrainRealtime_f32_keeps[OF assms[unfolded UpdateTimeAccumulators_f32_def Let_def]]
  by simp_all

section \<open>Properties of the scheduler and of the action pipeline\<close>




text \<open>
  C2. For a positive tick duration and any delta whatsoever, \<^verbatim>\<open>UpdateTimeAccumulators\<close>
  returns, and afterwards neither the ticks accumulator nor the realtime accumulator
  exceeds \<^verbatim>\<open>kGameUpdateMaxThreshold\<close>; the number of whole ticks pending in the ticks
  accumulator is at most the number that fits into the threshold.
\<close>

theorem accumulators_clamped:
  assumes "0 < kGameUpdateTimeMS c"
  shows "\<exists>st'. UpdateTimeAccumulators c dt st = Some st' \<and>
           ticksAccumulator st' \<le> kGameUpdateMaxThreshold c \<and>
           realtimeAccumulator st' \<le> kGameUpdateMaxThreshold c \<and>
           nat \<lfloor>ticksAccumulator st' / kGameUpdateTimeMS c\<rfloor>
             \<le> nat \<lfloor>kGameUpdateMaxThreshold c / kGameUpdateTimeMS c\<rfloor>"
proof -
  let ?td = "kGameUpdateTimeMS c" and ?mx = "kGameUpdateMaxThreshold c"
  let ?A = "std_min (ticksAccumulator st + dt * timeScale st) ?mx"
  let ?R = "std_min (realtimeAccumulator st + dt) ?mx"
  have A: "?A \<le> ?mx" and R: "?R \<le> ?mx" by (rule std_min_le)+
  have "0 \<le> real (nat \<lfloor>?R / ?td\<rfloor>) * ?td" using assms by simp
  hence R': "?R - real (nat \<lfloor>?R / ?td\<rfloor>) * ?td \<le> ?mx" using R by linarith
  have "?A / ?td \<le> ?mx / ?td" using A assms by (simp add: divide_right_mono)
  hence "\<lfloor>?A / ?td\<rfloor> \<le> \<lfloor>?mx / ?td\<rfloor>" by (rule floor_mono)
  hence F: "nat \<lfloor>?A / ?td\<rfloor> \<le> nat \<lfloor>?mx / ?td\<rfloor>" by simp
  show ?thesis
    unfolding UpdateTimeAccumulators_closed[OF assms] using A R' F by simp
qed

theorem accumulators_clamped_witness:
  "\<exists>st'. UpdateTimeAccumulators exampleConfig 10 freshContext = Some st' \<and>
         ticksAccumulator st' \<le> 1 / 10 \<and> realtimeAccumulator st' \<le> 1 / 10 \<and>
         nat \<lfloor>ticksAccumulator st' / (1 / 40)\<rfloor> \<le> 4"
  using accumulators_clamped[of exampleConfig 10 freshContext]
  by (simp add: exampleConfig_def)

text \<open>
  C3. The calls of one \<^verbatim>\<open>Tick()\<close>, in order: the real-time-of-day update; then exactly one
  of the intro update (intro state active), the title screen tick (title demo, not
  headless) and the simulation step \<^verbatim>\<open>gameStateTick\<close> (otherwise); then, whichever of the
  three ran, the housekeeping: Discord (when compiled in and present), chat, script engine
  (when compiled in), the console's pending evaluations, and the window system's tick.
\<close>

theorem tick_phase_order:
  "calls (Tick c p st) =
     calls st
     @ [DateUpdateRealTimeOfDay,
        (if introActive p then IntroUpdate
         else if titleDemo p \<and> \<not> gOpenRCT2Headless p then TitleScreenTick
         else GameStateTick)]
     @ (if enableDiscord c \<and> discordService st then [DiscordServiceTick] else [])
     @ [ChatUpdate]
     @ (if enableScripting c then [ScriptEngineTick] else [])
     @ [ProcessEvalQueue, UiContextTick]"
  by (simp add: Tick_def Let_def invoke_def)

theorem tick_phase_order_witness:
  "calls (Tick exampleConfig (fixedPoll 0) freshContext) =
     [DateUpdateRealTimeOfDay, GameStateTick, ChatUpdate, ProcessEvalQueue, UiContextTick] \<and>
   calls (Tick (exampleConfig\<lparr>enableScripting := True\<rparr>) ((fixedPoll 0)\<lparr>introActive := True\<rparr>)
            freshContext) =
     [DateUpdateRealTimeOfDay, IntroUpdate, ChatUpdate, ScriptEngineTick, ProcessEvalQueue,
      UiContextTick]"
  using tick_phase_order[of exampleConfig "fixedPoll 0" freshContext]
    tick_phase_order[of "exampleConfig\<lparr>enableScripting := True\<rparr>"
      "(fixedPoll 0)\<lparr>introActive := True\<rparr>" freshContext]
  by (simp add: exampleConfig_def fixedPoll_def freshContext_def)

text \<open>
  C4. On a poll where the frame mode differs from the recorded one (in either direction),
  \<^verbatim>\<open>RunFrame\<close> stores the new mode and calls the tweener's \<^verbatim>\<open>Restore\<close> and then
  \<^verbatim>\<open>Reset\<close> before anything else; when the new mode is Fixed no further tweener call
  follows in that frame. By the tweener's contract, after \<^verbatim>\<open>Restore\<close> and \<^verbatim>\<open>Reset\<close>
  every entity with a recorded pair has its render position at the recorded post-tick
  position, and no pair is recorded any more.
\<close>

theorem mode_switch_resets_tweener:
  assumes "0 < kGameUpdateTimeMS c" and "variableFrame st \<noteq> ShouldRunVariableFrame p"
  shows "(\<exists>st' cs. RunFrame c p st = Some st' \<and>
            variableFrame st' = ShouldRunVariableFrame p \<and>
            calls st' = calls st @ [TweenerRestore, TweenerReset, UiProcessMessages] @ cs \<and>
            (\<not> ShouldRunVariableFrame p \<longrightarrow> (\<forall>e\<in>set cs. \<not> isTweenerCall e))) \<and>
         recorded (Reset (Restore tw)) = Map.empty \<and>
         (\<forall>e fromPos toPos. recorded tw e = Some (fromPos, toPos) \<longrightarrow>
            renderPos (Reset (Restore tw)) e = Some toPos)"
proof -
  let ?st1 = "SyncFrameMode (ShouldRunVariableFrame p) st"
  have c1: "calls ?st1 = calls st @ [TweenerRestore, TweenerReset]"
    using assms(2) by (simp add: SyncFrameMode_def)
  from RunFrame_result[OF assms(1), where p = p and st = st] obtain st' where
    st': "RunFrame c p st = Some st'" "variableFrame st' = ShouldRunVariableFrame p" by blast
  obtain st2 where st2: "UpdateTimeAccumulators c (deltaTime p) ?st1 = Some st2"
    unfolding UpdateTimeAccumulators_closed[OF assms(1)] by blast
  have c2: "calls st2 = calls st @ [TweenerRestore, TweenerReset]"
    using UpdateTimeAccumulators_calls[OF assms(1) st2] c1 by simp
  have rf: "(if ShouldRunVariableFrame p then RunVariableFrame c p st2
             else RunFixedFrame c p st2) = Some st'"
    using st2 st'(1) by (simp add: RunFrame_def Let_def)
  have "\<exists>cs. calls st' = calls st @ [TweenerRestore, TweenerReset, UiProcessMessages] @ cs \<and>
            (\<not> ShouldRunVariableFrame p \<longrightarrow> (\<forall>e\<in>set cs. \<not> isTweenerCall e))"
  proof (cases "ShouldRunVariableFrame p")
    case True
    with rf have "RunVariableFrame c p st2 = Some st'" by simp
    from RunVariableFrame_calls[OF this] c2 True show ?thesis by auto
  next
    case False
    with rf have "RunFixedFrame c p st2 = Some st'" by simp
    from RunFixedFrame_calls[OF this] c2 show ?thesis by auto
  qed
  moreover have "recorded (Reset (Restore tw)) = Map.empty"
    by (simp add: Reset_def Restore_def)
  moreover have "\<forall>e fromPos toPos. recorded tw e = Some (fromPos, toPos) \<longrightarrow>
            renderPos (Reset (Restore tw)) e = Some toPos"
    by (simp add: Reset_def Restore_def)
  ultimately show ?thesis using st' by blast
qed

theorem mode_switch_resets_tweener_witness:
  "(\<exists>st' cs. RunFrame exampleConfig (variablePoll (1 / 100)) freshContext = Some st' \<and>
      variableFrame st' \<and>
      calls st' = [TweenerRestore, TweenerReset, UiProcessMessages] @ cs) \<and>
   (\<exists>st' cs. RunFrame exampleConfig (fixedPoll (1 / 100))
                (freshContext\<lparr>variableFrame := True\<rparr>) = Some st' \<and>
      \<not> variableFrame st' \<and>
      calls st' = [TweenerRestore, TweenerReset, UiProcessMessages] @ cs \<and>
      (\<forall>e\<in>set cs. \<not> isTweenerCall e)) \<and>
   recorded (Reset (Restore exampleTweener)) = Map.empty \<and>
   renderPos (Reset (Restore exampleTweener)) 7 = Some (32, 64, 0)"
proof -
  have td: "0 < kGameUpdateTimeMS exampleConfig" by (simp add: exampleConfig_def)
  have v: "ShouldRunVariableFrame (variablePoll (1 / 100))"
    and f: "\<not> ShouldRunVariableFrame (fixedPoll (1 / 100))"
    by (simp_all add: variablePoll_def fixedPoll_def ShouldRunVariableFrame_def ShouldDraw_def)
  have h1: "variableFrame freshContext \<noteq> ShouldRunVariableFrame (variablePoll (1 / 100))"
    using v by (simp add: freshContext_def)
  have h2: "variableFrame (freshContext\<lparr>variableFrame := True\<rparr>)
              \<noteq> ShouldRunVariableFrame (fixedPoll (1 / 100))"
    using f by simp
  have r: "recorded exampleTweener 7 = Some ((0, 0, 0), (32, 64, 0))"
    by (simp add: exampleTweener_def)
  have c: "calls freshContext = []" "calls (freshContext\<lparr>variableFrame := True\<rparr>) = []"
    by (simp_all add: freshContext_def)
  from mode_switch_resets_tweener[OF td h1, of exampleTweener] v r c(1)
  have a: "(\<exists>st' cs. RunFrame exampleConfig (variablePoll (1 / 100)) freshContext = Some st' \<and>
      variableFrame st' \<and>
      calls st' = [TweenerRestore, TweenerReset, UiProcessMessages] @ cs) \<and>
   recorded (Reset (Restore exampleTweener)) = Map.empty \<and>
   renderPos (Reset (Restore exampleTweener)) 7 = Some (32, 64, 0)"
    by auto
  from mode_switch_resets_tweener[OF td h2, of exampleTweener] f c(2)
  have b: "\<exists>st' cs. RunFrame exampleConfig (fixedPoll (1 / 100))
                (freshContext\<lparr>variableFrame := True\<rparr>) = Some st' \<and>
      \<not> variableFrame st' \<and>
      calls st' = [TweenerRestore, TweenerReset, UiProcessMessages] @ cs \<and>
      (\<forall>e\<in>set cs. \<not> isTweenerCall e)"
    by auto
  from a b show ?thesis by blast
qed

text \<open>
  C5. For every action and every game state: when the action's Query fails, the dispatcher
  returns a failure, leaves the game state as it was and does not call Execute. An
  order-setting action for a staff identifier that does not exist fails Query with
  "target not found", and Execute is not called.
\<close>

theorem failed_query_never_executes:
  "(\<forall>e. Query a s = Failure e \<longrightarrow>
      (\<exists>r cs. Enqueue a s = (r, s, cs) \<and> r \<noteq> Success \<and> ExecuteCalled \<notin> set cs)) \<and>
   (staffOrders s spriteIndex = None \<longrightarrow>
      Query (StaffSetOrdersAction w spriteIndex ordersId) s = Failure TargetNotFound \<and>
      (\<exists>r cs. Enqueue (StaffSetOrdersAction w spriteIndex ordersId) s = (r, s, cs) \<and>
         r \<noteq> Success \<and> ExecuteCalled \<notin> set cs) \<and>
      (\<not> simPaused s \<or> w \<longrightarrow>
         Enqueue (StaffSetOrdersAction w spriteIndex ordersId) s
           = (Failure TargetNotFound, s, [QueryCalled])))"
proof -
  have gen: "\<exists>r cs. Enqueue a s = (r, s, cs) \<and> r \<noteq> Success \<and> ExecuteCalled \<notin> set cs"
    if "Query a s = Failure e" for a e
    using that by (simp add: Enqueue_def)
  have q: "Query (StaffSetOrdersAction w spriteIndex ordersId) s = Failure TargetNotFound"
    if "staffOrders s spriteIndex = None"
    using that by (simp add: StaffSetOrdersAction_def StaffSetOrdersQuery_def)
  have e: "Enqueue (StaffSetOrdersAction w spriteIndex ordersId) s
           = (Failure TargetNotFound, s, [QueryCalled])"
    if "staffOrders s spriteIndex = None" "\<not> simPaused s \<or> w"
  proof -
    have "allowedWhilePaused (StaffSetOrdersAction w spriteIndex ordersId) = w"
      by (simp add: StaffSetOrdersAction_def)
    with that q show ?thesis by (auto simp add: Enqueue_def)
  qed
  from gen[where a = a] gen[where a = "StaffSetOrdersAction w spriteIndex ordersId", OF q] q e
  show ?thesis by blast
qed

theorem failed_query_never_executes_witness:
  "Query (StaffSetOrdersAction False 9 2) exampleGame = Failure TargetNotFound \<and>
   Enqueue (StaffSetOrdersAction False 9 2) exampleGame
     = (Failure TargetNotFound, exampleGame, [QueryCalled]) \<and>
   Enqueue (StaffSetOrdersAction False 3 2) exampleGame
     = (Success, exampleGame\<lparr>staffOrders := [3 \<mapsto> 2]\<rparr>, [QueryCalled, ExecuteCalled])"
proof -
  have h: "staffOrders exampleGame 9 = None" "\<not> simPaused exampleGame"
    by (simp_all add: exampleGame_def)
  have x: "Enqueue (StaffSetOrdersAction False 3 2) exampleGame
     = (Success, exampleGame\<lparr>staffOrders := [3 \<mapsto> 2]\<rparr>, [QueryCalled, ExecuteCalled])"
    by (simp add: Enqueue_def StaffSetOrdersAction_def StaffSetOrdersQuery_def
        StaffSetOrdersExecute_def exampleGame_def)
  from failed_query_never_executes[of "StaffSetOrdersAction False 9 2" exampleGame 9 False 2] h x
  show ?thesis by blast
qed

text \<open>
  C6. The termination flag is meant to be write-once (the comment at its declaration: "so
  that the flag can not be set back to false"). The code does not keep to that:
  \<^verbatim>\<open>RunGameLoop\<close> assigns false on entry. When \<^verbatim>\<open>Finish()\<close> has set the flag before the
  loop is entered, the flag is clear again after entry and the loop runs on, here for two
  passes, until a finish is requested once more.
\<close>

theorem finished_flag_cleared_on_loop_entry:
  "finished (Finish freshContext) \<and>
   \<not> finished (EnterGameLoop (fixedPoll 0) (Finish freshContext)) \<and>
   RunGameLoop exampleConfig (fixedPoll 0)
     [fixedPoll (1 / 100), (fixedPoll (1 / 100))\<lparr>finishRequested := True\<rparr>]
     (Finish freshContext) =
     Some (freshContext\<lparr>ticksAccumulator := 1 / 50, realtimeAccumulator := 1 / 50,
             finished := True,
             calls := [UiProcessMessages, PlatformSleep 15, UiProcessMessages, PlatformSleep 5]\<rparr>)"
  by (simp add: RunGameLoop_def EnterGameLoop_def eval_defs)

text \<open>
  C7 (as the code has it). In Fixed mode, on a poll where the accumulator update returns
  with a ticks accumulator below one tick duration, the frame returns without running a
  tick and makes no call after the message pump other than \<^verbatim>\<open>Platform::Sleep\<close>. The
  sleep is the remaining time as the code computes it in binary32, the tick duration less
  the accumulator, times 1000, converted to \<^verbatim>\<open>uint32_t\<close>: a whole number of milliseconds.
\<close>

theorem fixed_frame_sleep_binary32:
  assumes "\<not> ShouldRunVariableFrame p"
    and "UpdateTimeAccumulators_f32 c (deltaTime p)
           (SyncFrameMode (ShouldRunVariableFrame p) st) = Some st2"
    and "ticksAccumulator st2 < kGameUpdateTimeMS c"
  shows "\<exists>st'. RunFrame_f32 c p st = Some st' \<and>
           ticksAccumulator st' = ticksAccumulator st2 \<and>
           ticksAccumulator st2 =
             std_min (fadd (ticksAccumulator st) (fmul (deltaTime p) (timeScale st)))
               (kGameUpdateMaxThreshold c) \<and>
           ticksRun (calls st') = ticksRun (calls st) \<and>
           calls st' = calls st
             @ (if variableFrame st then [TweenerRestore, TweenerReset] else [])
             @ [UiProcessMessages,
                PlatformSleep (float_to_word
                  (fmul (fsub (kGameUpdateTimeMS c) (ticksAccumulator st2)) 1000))] \<and>
           (0 \<le> fmul (fsub (kGameUpdateTimeMS c) (ticksAccumulator st2)) 1000 \<and>
            fmul (fsub (kGameUpdateTimeMS c) (ticksAccumulator st2)) 1000 < 2 ^ 32 \<longrightarrow>
              unat (float_to_word
                     (fmul (fsub (kGameUpdateTimeMS c) (ticksAccumulator st2)) 1000) :: 32 word)
                = nat \<lfloor>fmul (fsub (kGameUpdateTimeMS c) (ticksAccumulator st2)) 1000\<rfloor>)"
proof -
  let ?td = "kGameUpdateTimeMS c"
  let ?st1 = "SyncFrameMode (ShouldRunVariableFrame p) st"
  let ?X = "fmul (fsub ?td (ticksAccumulator st2)) 1000"
  have c1: "calls ?st1 = calls st @ (if variableFrame st then [TweenerRestore, TweenerReset] else [])"
    using assms(1) by (simp add: SyncFrameMode_def)
  note k = UpdateTimeAccumulators_f32_keeps[OF assms(2)]
  have a2: "ticksAccumulator st2 =
             std_min (fadd (ticksAccumulator st) (fmul (deltaTime p) (timeScale st)))
               (kGameUpdateMaxThreshold c)"
    using k(1) by simp
  have c2: "calls st2 = calls st @ (if variableFrame st then [TweenerRestore, TweenerReset] else [])"
    using k(2) c1 by simp
  let ?st' = "invoke (PlatformSleep (float_to_word ?X)) (ProcessMessages p st2)"
  have "RunFixedFrame_f32 c p st2 = Some ?st'"
    using assms(3) by (simp add: RunFixedFrame_f32_def Let_def)
  hence rf: "RunFrame_f32 c p st = Some ?st'"
    using assms(1,2) by (simp add: RunFrame_f32_def Let_def)
  have acc: "ticksAccumulator ?st' = ticksAccumulator st2" by simp
  have cl: "calls ?st' = calls st
             @ (if variableFrame st then [TweenerRestore, TweenerReset] else [])
             @ [UiProcessMessages, PlatformSleep (float_to_word ?X)]"
    using c2 by simp
  have tr: "ticksRun (calls ?st') = ticksRun (calls st)" unfolding cl by simp
  have un: "0 \<le> ?X \<and> ?X < 2 ^ 32 \<longrightarrow>
              unat (float_to_word ?X :: 32 word) = nat \<lfloor>?X\<rfloor>"
    using unat_float_to_word[of ?X] by blast
  from rf acc a2 tr cl un show ?thesis by blast
qed

theorem fixed_frame_sleep_binary32_witness:
  "\<exists>st'. RunFrame_f32 binary32Config (fixedPoll (round32 (1 / 125))) freshContext = Some st' \<and>
      ticksAccumulator st' = round32 (1 / 125) \<and>
      calls st' = [UiProcessMessages, PlatformSleep 17] \<and>
      unat (float_to_word
             (fmul (fsub (kGameUpdateTimeMS binary32Config) (round32 (1 / 125))) 1000) :: 32 word)
        = 17"
proof -
  let ?c = binary32Config and ?p = "fixedPoll (round32 (1 / 125))"
  let ?st2 = "freshContext\<lparr>ticksAccumulator := round32 (1 / 125),
                            realtimeAccumulator := round32 (1 / 125)\<rparr>"
  have h1: "\<not> ShouldRunVariableFrame ?p"
    by (simp add: fixedPoll_def ShouldRunVariableFrame_def ShouldDraw_def)
  have h2: "UpdateTimeAccumulators_f32 ?c (deltaTime ?p)
              (SyncFrameMode (ShouldRunVariableFrame ?p) freshContext) = Some ?st2"
    by (simp add: eval_f32_defs)
  have h3: "ticksAccumulator ?st2 < kGameUpdateTimeMS ?c"
    by (simp add: binary32Config_def round32_values)
  have x: "fmul (fsub (kGameUpdateTimeMS ?c) (ticksAccumulator ?st2)) 1000 = 17"
    by (simp add: binary32Config_def fmul_def fsub_def round32_values)
       (simp add: round32_eval Let_def)
  from fixed_frame_sleep_binary32[OF h1 h2 h3] obtain st' where
    s: "RunFrame_f32 ?c ?p freshContext = Some st'"
      "ticksAccumulator st' = ticksAccumulator ?st2"
      "calls st' = calls freshContext
         @ (if variableFrame freshContext then [TweenerRestore, TweenerReset] else [])
         @ [UiProcessMessages,
            PlatformSleep (float_to_word
              (fmul (fsub (kGameUpdateTimeMS ?c) (ticksAccumulator ?st2)) 1000))]"
      "0 \<le> fmul (fsub (kGameUpdateTimeMS ?c) (ticksAccumulator ?st2)) 1000 \<and>
         fmul (fsub (kGameUpdateTimeMS ?c) (ticksAccumulator ?st2)) 1000 < 2 ^ 32 \<longrightarrow>
         unat (float_to_word
                (fmul (fsub (kGameUpdateTimeMS ?c) (ticksAccumulator ?st2)) 1000) :: 32 word)
           = nat \<lfloor>fmul (fsub (kGameUpdateTimeMS ?c) (ticksAccumulator ?st2)) 1000\<rfloor>"
    by blast
  have "ticksAccumulator st' = round32 (1 / 125)" using s(2) by simp
  moreover have "calls st' = [UiProcessMessages, PlatformSleep 17]"
    using s(3) unfolding x by (simp add: freshContext_def float_to_word_def)
  moreover have "unat (float_to_word
             (fmul (fsub (kGameUpdateTimeMS ?c) (round32 (1 / 125))) 1000) :: 32 word) = 17"
    using s(4) x by simp
  ultimately show ?thesis using s(1) by blast
qed

text \<open>
  The sleep is not the exact remaining time: with 10.5 ms accumulated of a 25 ms tick,
  about 14.5 ms remain and the frame sleeps 14 ms.
\<close>

theorem fixed_frame_sleep_not_exact:
  "map_option (\<lambda>st. (ticksAccumulator st, calls st))
     (RunFrame_f32 binary32Config (fixedPoll (round32 (21 / 2000))) freshContext)
     = Some (round32 (21 / 2000), [UiProcessMessages, PlatformSleep 14]) \<and>
   real (unat (14 :: 32 word)) / 1000
     \<noteq> kGameUpdateTimeMS binary32Config - round32 (21 / 2000)"
proof -
  have a: "map_option (\<lambda>st. (ticksAccumulator st, calls st))
     (RunFrame_f32 binary32Config (fixedPoll (round32 (21 / 2000))) freshContext)
     = Some (round32 (21 / 2000), [UiProcessMessages, PlatformSleep 14])"
    by (simp add: eval_f32_defs)
  have b: "real (unat (14 :: 32 word)) / 1000
     \<noteq> kGameUpdateTimeMS binary32Config - round32 (21 / 2000)"
    by (simp add: binary32Config_def round32_values)
  from a b show ?thesis by blast
qed

text \<open>
  C8. \<^verbatim>\<open>ShouldRunVariableFrame\<close> holds exactly when the game is not headless, the window is
  not minimised, uncapped frame rate is configured and the game speed is not above 4; and
  every poll records that value in \<^verbatim>\<open>_variableFrame\<close> and runs the variable frame exactly
  when it holds, the fixed frame otherwise.
\<close>

theorem variable_frame_selection:
  "(ShouldRunVariableFrame p \<longleftrightarrow>
      \<not> gOpenRCT2Headless p \<and> \<not> isMinimised p \<and> uncapFPS p \<and> \<not> 4 < gGameSpeed p) \<and>
   (0 < kGameUpdateTimeMS c \<longrightarrow>
      (\<exists>st2 st'. UpdateTimeAccumulators c (deltaTime p)
                    (SyncFrameMode (ShouldRunVariableFrame p) st) = Some st2 \<and>
          RunFrame c p st = Some st' \<and>
          variableFrame st' =
            (\<not> gOpenRCT2Headless p \<and> \<not> isMinimised p \<and> uncapFPS p \<and> \<not> 4 < gGameSpeed p) \<and>
          RunFrame c p st =
            (if \<not> gOpenRCT2Headless p \<and> \<not> isMinimised p \<and> uncapFPS p \<and> \<not> 4 < gGameSpeed p
             then RunVariableFrame c p st2 else RunFixedFrame c p st2)))"
proof -
  have sel: "ShouldRunVariableFrame p \<longleftrightarrow>
      \<not> gOpenRCT2Headless p \<and> \<not> isMinimised p \<and> uncapFPS p \<and> \<not> 4 < gGameSpeed p"
    by (simp add: ShouldRunVariableFrame_def ShouldDraw_def)
  have run: "\<exists>st2 st'. UpdateTimeAccumulators c (deltaTime p)
                    (SyncFrameMode (ShouldRunVariableFrame p) st) = Some st2 \<and>
          RunFrame c p st = Some st' \<and>
          variableFrame st' = ShouldRunVariableFrame p \<and>
          RunFrame c p st =
            (if ShouldRunVariableFrame p
             then RunVariableFrame c p st2 else RunFixedFrame c p st2)"
    if td: "0 < kGameUpdateTimeMS c"
  proof -
    from RunFrame_result[OF td, where p = p and st = st] obtain st' where
      st': "RunFrame c p st = Some st'" "variableFrame st' = ShouldRunVariableFrame p"
      by blast
    obtain st2 where st2: "UpdateTimeAccumulators c (deltaTime p)
                    (SyncFrameMode (ShouldRunVariableFrame p) st) = Some st2"
      unfolding UpdateTimeAccumulators_closed[OF td] by blast
    have "RunFrame c p st =
            (if ShouldRunVariableFrame p
             then RunVariableFrame c p st2 else RunFixedFrame c p st2)"
      using st2 by (simp add: RunFrame_def Let_def)
    with st' st2 show ?thesis by blast
  qed
  show ?thesis using sel run unfolding sel[symmetric] by blast
qed

theorem variable_frame_selection_witness:
  "ShouldRunVariableFrame (variablePoll (1 / 100)) \<and>
   \<not> ShouldRunVariableFrame ((variablePoll (1 / 100))\<lparr>gGameSpeed := 8\<rparr>) \<and>
   (\<exists>st'. RunFrame exampleConfig (variablePoll (1 / 100)) freshContext = Some st' \<and>
          variableFrame st')"
proof -
  note t = variable_frame_selection[of "variablePoll (1 / 100)" exampleConfig freshContext]
  note u = variable_frame_selection[of "(variablePoll (1 / 100))\<lparr>gGameSpeed := 8\<rparr>"
      exampleConfig freshContext]
  have td: "0 < kGameUpdateTimeMS exampleConfig" by (simp add: exampleConfig_def)
  have v: "\<not> gOpenRCT2Headless (variablePoll (1 / 100)) \<and> \<not> isMinimised (variablePoll (1 / 100))
      \<and> uncapFPS (variablePoll (1 / 100)) \<and> \<not> 4 < gGameSpeed (variablePoll (1 / 100))"
    by (simp add: variablePoll_def fixedPoll_def)
  have a: "ShouldRunVariableFrame (variablePoll (1 / 100))" using t v by blast
  have b: "\<not> ShouldRunVariableFrame ((variablePoll (1 / 100))\<lparr>gGameSpeed := 8\<rparr>)"
    using u by simp
  from t td obtain st' where "RunFrame exampleConfig (variablePoll (1 / 100)) freshContext = Some st'"
    "variableFrame st' = (\<not> gOpenRCT2Headless (variablePoll (1 / 100))
      \<and> \<not> isMinimised (variablePoll (1 / 100))
      \<and> uncapFPS (variablePoll (1 / 100)) \<and> \<not> 4 < gGameSpeed (variablePoll (1 / 100)))"
    by blast
  with v a b show ?thesis by blast
qed



text \<open>
  C10. \<^verbatim>\<open>Initialise\<close> on a context that is already initialised throws the runtime error
  "Context already initialised." and does nothing else; and whenever \<^verbatim>\<open>Initialise\<close>
  returns (with either result), the context was not initialised before, is initialised
  afterwards, and every later call throws.
\<close>

theorem initialise_runs_at_most_once:
  "(initialised st \<longrightarrow>
      Initialise c s st = Inl (RuntimeError ''Context already initialised.'')) \<and>
   (\<forall>ok st'. Initialise c s st = Inr (ok, st') \<longrightarrow>
      \<not> initialised st \<and> initialised st' \<and>
      Initialise c s2 st' = Inl (RuntimeError ''Context already initialised.''))"
proof -
  have a: "initialised st \<longrightarrow>
      Initialise c s st = Inl (RuntimeError ''Context already initialised.'')"
    by (simp add: Initialise_def)
  have b: "\<not> initialised st \<and> initialised st' \<and>
      Initialise c s2 st' = Inl (RuntimeError ''Context already initialised.'')"
    if r: "Initialise c s st = Inr (ok, st')" for ok st'
  proof -
    have n: "\<not> initialised st" using r by (auto simp add: Initialise_def)
    have "initialised (snd (ok, st'))"
      using r by (rule Initialise_Inr_initialised)
    hence "initialised st'" by simp
    moreover from this have
      "Initialise c s2 st' = Inl (RuntimeError ''Context already initialised.'')"
      by (simp add: Initialise_def)
    ultimately show ?thesis using n by blast
  qed
  from a b show ?thesis by blast
qed

theorem initialise_runs_at_most_once_witness:
  "(\<exists>st'. Initialise exampleConfig exampleStartup freshContext = Inr (True, st') \<and>
      Initialise exampleConfig exampleStartup st'
        = Inl (RuntimeError ''Context already initialised.'')) \<and>
   Initialise exampleConfig exampleStartup (freshContext\<lparr>initialised := True\<rparr>)
     = Inl (RuntimeError ''Context already initialised.'')"
proof -
  have "\<exists>st'. Initialise exampleConfig exampleStartup freshContext = Inr (True, st')"
    by (simp add: Initialise_def InitialiseServices_def Let_def exampleConfig_def
        exampleStartup_def freshContext_def)
  then obtain st' where
    r: "Initialise exampleConfig exampleStartup freshContext = Inr (True, st')" by blast
  from initialise_runs_at_most_once[of freshContext exampleConfig exampleStartup exampleStartup] r
  have a: "Initialise exampleConfig exampleStartup st'
        = Inl (RuntimeError ''Context already initialised.'')" by blast
  from initialise_runs_at_most_once[of "freshContext\<lparr>initialised := True\<rparr>"
      exampleConfig exampleStartup exampleStartup]
  have b: "Initialise exampleConfig exampleStartup (freshContext\<lparr>initialised := True\<rparr>)
     = Inl (RuntimeError ''Context already initialised.'')" by simp
  from r a b show ?thesis by blast
qed

end
